theory Spec2Isabelle
  imports Complex_Main
begin

section \<open>Evaluation engine of the model benchmark dashboard\<close>

text \<open>
  A shallow embedding of \<^verbatim>\<open>backend/evaluation/metrics.py\<close>,
  \<^verbatim>\<open>backend/evaluation/benchmark_runner.py\<close> and
  \<^verbatim>\<open>backend/evaluation/leaderboard.py\<close>.

  Python floats are modelled as exact reals: rounding, infinities and NaN are outside
  the model. A Python dict is an association list with distinct keys in insertion
  order; a key that is absent from a dict literal is an \<open>option\<close> field with value
  \<open>None\<close>. Every exception the code can raise is a value of \<open>py_error\<close>.
\<close>

subsection \<open>Python values\<close>

datatype py_error = ZeroDivisionError | AttributeError | TypeError

text \<open>True division \<^verbatim>\<open>a / b\<close> by a divisor that is a variable of the program.\<close>

definition py_truediv :: "real \<Rightarrow> real \<Rightarrow> py_error + real" where
  "py_truediv a b = (if b = 0 then Inl ZeroDivisionError else Inr (a / b))"

text \<open>\<^verbatim>\<open>d[k] = v\<close>: an existing key keeps its position, a new key goes last.\<close>

fun dict_set :: "'k \<Rightarrow> 'v \<Rightarrow> ('k \<times> 'v) list \<Rightarrow> ('k \<times> 'v) list" where
  "dict_set k v [] = [(k, v)]"
| "dict_set k v ((k', v') # d) = (if k' = k then (k, v) # d else (k', v') # dict_set k v d)"

text \<open>\<^verbatim>\<open>d.get(k, default)\<close>.\<close>

definition dict_get :: "('k \<times> 'v) list \<Rightarrow> 'k \<Rightarrow> 'v \<Rightarrow> 'v" where
  "dict_get d k dflt = (case map_of d k of None \<Rightarrow> dflt | Some v \<Rightarrow> v)"

subsection \<open>MetricsCalculator: numeric scores\<close>

definition calculate_latency_score :: "real \<Rightarrow> real" where
  "calculate_latency_score latency =
     (if latency \<le> 1 then 100
      else if latency \<ge> 10 then 0
      else max 0 (100 * (10 - latency) / 9))"

text \<open>\<^verbatim>\<open>max_cost\<close> has the default \<^verbatim>\<open>0.1\<close>; the caller of the model passes it.\<close>

definition calculate_cost_score :: "real \<Rightarrow> real \<Rightarrow> py_error + real" where
  "calculate_cost_score cost max_cost =
     (if cost \<le> 0 then Inr 100
      else case py_truediv cost max_cost of
             Inl e \<Rightarrow> Inl e
           | Inr q \<Rightarrow> (let normalized_cost = min q 1 in Inr ((1 - normalized_cost) * 100)))"

definition calculate_context_utilization_score :: "int \<Rightarrow> int \<Rightarrow> real" where
  "calculate_context_utilization_score prompt_length max_context =
     (if max_context \<le> 0 then 50
      else let utilization = min (real_of_int prompt_length / real_of_int max_context) 1
           in if 2 / 10 \<le> utilization \<and> utilization \<le> 8 / 10 then 100
              else if utilization < 2 / 10 then utilization * 500
              else max 0 (100 - (utilization - 8 / 10) * 500))"

definition default_weights :: "(string \<times> real) list" where
  "default_weights =
     [(''latency'', 3 / 10), (''cost'', 2 / 10), (''quality'', 4 / 10),
      (''context_utilization'', 1 / 10)]"

text \<open>
  The loop of \<^verbatim>\<open>aggregate_scores\<close> over \<^verbatim>\<open>scores.items()\<close>; the
  accumulator is the pair \<^verbatim>\<open>(total_score, total_weight)\<close>.
\<close>

fun accumulate_scores ::
  "(string \<times> real) list \<Rightarrow> (string \<times> real) list \<Rightarrow> real \<times> real \<Rightarrow> real \<times> real" where
  "accumulate_scores weights [] acc = acc"
| "accumulate_scores weights ((metric, score) # rest) (total_score, total_weight) =
     (let weight = dict_get weights metric (1 / 10)
      in accumulate_scores weights rest (total_score + score * weight, total_weight + weight))"

definition aggregate_scores ::
  "(string \<times> real) list \<Rightarrow> (string \<times> real) list option \<Rightarrow> py_error + real" where
  "aggregate_scores scores weights =
     (if scores = [] then Inr 0
      else let weights = (case weights of None \<Rightarrow> default_weights | Some w \<Rightarrow> w);
               (total_score, total_weight) = accumulate_scores weights scores (0, 0)
           in if total_weight > 0 then py_truediv total_score total_weight else Inr 0)"

text \<open>
  The quantities the specification names: the weight a metric gets, the total weight
  \<open>\<Sigma> weight\<close> and the weighted sum \<open>\<Sigma> score \<sqdot> weight\<close> of a scores mapping.
\<close>

definition effective_weights :: "(string \<times> real) list option \<Rightarrow> (string \<times> real) list" where
  "effective_weights weights = (case weights of None \<Rightarrow> default_weights | Some w \<Rightarrow> w)"

definition weight_of :: "(string \<times> real) list option \<Rightarrow> string \<Rightarrow> real" where
  "weight_of weights metric = dict_get (effective_weights weights) metric (1 / 10)"

definition total_weight_of :: "(string \<times> real) list option \<Rightarrow> (string \<times> real) list \<Rightarrow> real" where
  "total_weight_of weights scores = (\<Sum>(m, s) \<leftarrow> scores. weight_of weights m)"

definition weighted_sum_of :: "(string \<times> real) list option \<Rightarrow> (string \<times> real) list \<Rightarrow> real" where
  "weighted_sum_of weights scores = (\<Sum>(m, s) \<leftarrow> scores. s * weight_of weights m)"

subsection \<open>MetricsCalculator: text quality\<close>

text \<open>
  Strings are lists of 8-bit characters. The model of \<^verbatim>\<open>str.split()\<close>,
  \<^verbatim>\<open>str.strip()\<close> and \<^verbatim>\<open>str.lower()\<close> is exact on ASCII text: the
  whitespace characters are the ASCII ones Python recognises, and only the letters
  A to Z change under \<^verbatim>\<open>lower()\<close>.
\<close>

definition is_space :: "char \<Rightarrow> bool" where
  "is_space c =
     (c \<in> set [CHR 0x09, CHR 0x0A, CHR 0x0B, CHR 0x0C, CHR 0x0D,
                CHR 0x1C, CHR 0x1D, CHR 0x1E, CHR 0x1F, CHR 0x20])"

text \<open>\<^verbatim>\<open>s.split()\<close>: the maximal runs of non-whitespace characters.\<close>

fun split_words :: "string \<Rightarrow> string \<Rightarrow> string list" where
  "split_words cur [] = (if cur = [] then [] else [cur])"
| "split_words cur (c # cs) =
     (if is_space c then (if cur = [] then [] else [cur]) @ split_words [] cs
      else split_words (cur @ [c]) cs)"

definition py_split :: "string \<Rightarrow> string list" where
  "py_split s = split_words [] s"

text \<open>\<^verbatim>\<open>s.split(sep)\<close> for a separator of one character: empty pieces are kept.\<close>

fun split_at :: "char \<Rightarrow> string \<Rightarrow> string \<Rightarrow> string list" where
  "split_at sep cur [] = [cur]"
| "split_at sep cur (c # cs) =
     (if c = sep then cur # split_at sep [] cs else split_at sep (cur @ [c]) cs)"

definition py_split_on :: "char \<Rightarrow> string \<Rightarrow> string list" where
  "py_split_on sep s = split_at sep [] s"

definition py_strip :: "string \<Rightarrow> string" where
  "py_strip s = rev (dropWhile is_space (rev (dropWhile is_space s)))"

definition py_endswith :: "string \<Rightarrow> string \<Rightarrow> bool" where
  "py_endswith s suffix = (take (length suffix) (rev s) = rev suffix)"

text \<open>\<^verbatim>\<open>sub in s\<close> for strings.\<close>

fun py_contains :: "string \<Rightarrow> string \<Rightarrow> bool" where
  "py_contains sub [] = (sub = [])"
| "py_contains sub (c # cs) = (take (length sub) (c # cs) = sub \<or> py_contains sub cs)"

definition lower_char :: "char \<Rightarrow> char" where
  "lower_char c =
     (case map_of (zip ''ABCDEFGHIJKLMNOPQRSTUVWXYZ'' ''abcdefghijklmnopqrstuvwxyz'') c of
        None \<Rightarrow> c
      | Some l \<Rightarrow> l)"

definition py_lower :: "string \<Rightarrow> string" where
  "py_lower s = map lower_char s"

definition calculate_text_similarity :: "string \<Rightarrow> string \<Rightarrow> real" where
  "calculate_text_similarity text1 text2 =
     (let words1 = set (py_split (py_lower text1));
          words2 = set (py_split (py_lower text2))
      in if words1 = {} \<and> words2 = {} then 1
         else if words1 = {} \<or> words2 = {} then 0
         else real (card (words1 \<inter> words2)) / real (card (words1 \<union> words2)))"

text \<open>
  Lines 34 to 54 of \<^verbatim>\<open>calculate_quality_score\<close>: the score of a non-empty
  response before a reference is looked at.
\<close>

definition heuristic_quality :: "string \<Rightarrow> real" where
  "heuristic_quality response =
     (let score = 50;
          len = length (py_split response);
          score = (if 10 \<le> len \<and> len \<le> 500 then score + 20
                   else if (5 \<le> len \<and> len < 10) \<or> (500 < len \<and> len \<le> 1000) then score + 10
                   else score);
          sentences = py_split_on (CHR ''.'') response;
          score = (if length sentences > 1 then score + 10 else score);
          score = (if py_endswith (py_strip response) ''.'' \<or> py_endswith (py_strip response) ''!''
                      \<or> py_endswith (py_strip response) ''?''
                   then score + 10 else score);
          score = (if py_contains ''I apologize'' response \<or> py_contains ''I cannot'' response
                   then score - 10 else score)
      in score)"

text \<open>
  \<^verbatim>\<open>response\<close> and \<^verbatim>\<open>reference\<close> may be Python's \<^verbatim>\<open>None\<close>, which is
  false in a condition, as the empty string is.
\<close>

definition calculate_quality_score :: "string option \<Rightarrow> string option \<Rightarrow> real" where
  "calculate_quality_score response reference =
     (case response of
        None \<Rightarrow> 0
      | Some response \<Rightarrow>
          if response = [] then 0
          else let score = heuristic_quality response;
                   score = (case reference of
                              None \<Rightarrow> score
                            | Some reference \<Rightarrow>
                                if reference = [] then score
                                else let similarity = calculate_text_similarity response reference
                                     in (score + similarity * 100) / 2)
               in min 100 (max 0 score))"

subsection \<open>Connectors and the data of a benchmark run\<close>

text \<open>
  The dict a connector returns from \<^verbatim>\<open>generate_response\<close>. Every key is read
  with \<^verbatim>\<open>.get\<close>, so every key may be absent (\<open>None\<close>). The value under
  \<^verbatim>\<open>'response'\<close> may itself be Python's \<^verbatim>\<open>None\<close>, as in the failure record
  of \<^verbatim>\<open>GPTConnector\<close> (\<open>Some None\<close>).
\<close>

record response_data =
  rd_response :: "string option option"
  rd_latency :: "real option"
  rd_tokens_used :: "int option"
  rd_success :: "bool option"
  rd_error :: "string option"

record model_info =
  mi_name :: string
  mi_provider :: string
  mi_max_context_length :: "int option"
  mi_cost_per_1k_tokens :: "real option"
  mi_modalities :: "string list"

text \<open>
  A connector is deterministic and, like \<^verbatim>\<open>GPTConnector\<close>, turns every failure of
  its provider into a response record with \<^verbatim>\<open>success = False\<close>.
\<close>

record connector =
  get_model_info :: model_info
  generate_response :: "string \<Rightarrow> response_data"

text \<open>The dict stored per metric in \<^verbatim>\<open>calculated_metrics\<close>.\<close>

record metric_data =
  md_score :: real
  md_raw_value :: "real option"
  md_tokens_used :: "int option"
  md_prompt_length :: "int option"
  md_max_context :: "int option"

record prompt_result =
  pr_prompt :: string
  pr_response :: "string option"
  pr_success :: bool
  pr_error :: "string option"
  pr_metrics :: "(string \<times> metric_data) list"
  pr_prompt_index :: "nat option"

record metric_aggregate =
  ag_average_score :: real
  ag_min_score :: real
  ag_max_score :: real
  ag_count :: nat
  ag_average_raw :: "real option"
  ag_min_raw :: "real option"
  ag_max_raw :: "real option"

text \<open>
  The values of the \<^verbatim>\<open>aggregated\<close> dict: a dict of statistics under a metric's
  name, a float under the key \<^verbatim>\<open>'overall_score'\<close>.
\<close>

datatype agg_value = MetricAgg metric_aggregate | Overall real

type_synonym aggregated = "(string \<times> agg_value) list"

text \<open>
  \<^verbatim>\<open>aggregated_metrics\<close> is \<open>None\<close> when the key is absent from the dict of a
  model, which \<^verbatim>\<open>_calculate_summary\<close> tests.
\<close>

record model_result =
  mr_model_id :: string
  mr_model_info :: model_info
  mr_prompt_results :: "prompt_result list"
  mr_aggregated_metrics :: "aggregated option"

type_synonym ranking = "(string \<times> real) list"

record summary =
  sm_rankings :: "(string \<times> ranking) list"
  sm_best_performers :: "(string \<times> string) list"
  sm_metric_averages :: "(string \<times> real) list"

record benchmark_run =
  br_id :: string
  br_timestamp :: real
  br_prompts :: "string list"
  br_model_ids :: "string list"
  br_metrics :: "string list"
  br_results :: "(string \<times> model_result) list"
  br_summary :: summary

subsection \<open>BenchmarkRunner: one prompt\<close>

text \<open>\<^verbatim>\<open>d.get(key, default)\<close> on a dict whose key is an \<open>option\<close> field.\<close>

definition get_or :: "'a option \<Rightarrow> 'a \<Rightarrow> 'a" where
  "get_or field dflt = (case field of None \<Rightarrow> dflt | Some v \<Rightarrow> v)"

definition evaluate_single_prompt ::
  "connector \<Rightarrow> string \<Rightarrow> string list \<Rightarrow> model_info \<Rightarrow> py_error + prompt_result" where
  "evaluate_single_prompt connector prompt metrics model_info =
     (let response_data = generate_response connector prompt;
          calculated_metrics = [];
          calculated_metrics =
            (if ''latency'' \<in> set metrics
             then let latency_score = calculate_latency_score (get_or (rd_latency response_data) 0)
                  in dict_set ''latency''
                       \<lparr>md_score = latency_score,
                        md_raw_value = Some (get_or (rd_latency response_data) 0),
                        md_tokens_used = None, md_prompt_length = None, md_max_context = None\<rparr>
                       calculated_metrics
             else calculated_metrics)
      in case (if ''cost'' \<in> set metrics
               then let tokens_used = get_or (rd_tokens_used response_data) 0;
                        cost_per_1k = get_or (mi_cost_per_1k_tokens model_info) 0;
                        cost = (real_of_int tokens_used / 1000) * cost_per_1k
                    in case calculate_cost_score cost (1 / 10) of
                         Inl e \<Rightarrow> Inl e
                       | Inr cost_score \<Rightarrow>
                           Inr (dict_set ''cost''
                                  \<lparr>md_score = cost_score, md_raw_value = Some cost,
                                   md_tokens_used = Some tokens_used,
                                   md_prompt_length = None, md_max_context = None\<rparr>
                                  calculated_metrics)
               else Inr calculated_metrics) of
           Inl e \<Rightarrow> Inl e
         | Inr calculated_metrics \<Rightarrow>
             (let calculated_metrics =
                    (if ''quality'' \<in> set metrics
                     then let quality_score =
                                calculate_quality_score
                                  (get_or (rd_response response_data) (Some [])) None
                          in dict_set ''quality''
                               \<lparr>md_score = quality_score, md_raw_value = None,
                                md_tokens_used = None, md_prompt_length = None,
                                md_max_context = None\<rparr>
                               calculated_metrics
                     else calculated_metrics);
                  calculated_metrics =
                    (if ''context_utilization'' \<in> set metrics
                     then let prompt_length = int (length (py_split prompt));
                              max_context = get_or (mi_max_context_length model_info) 4096;
                              context_score =
                                calculate_context_utilization_score prompt_length max_context
                          in dict_set ''context_utilization''
                               \<lparr>md_score = context_score, md_raw_value = None,
                                md_tokens_used = None, md_prompt_length = Some prompt_length,
                                md_max_context = Some max_context\<rparr>
                               calculated_metrics
                     else calculated_metrics)
              in Inr \<lparr>pr_prompt = prompt,
                      pr_response = get_or (rd_response response_data) (Some []),
                      pr_success = get_or (rd_success response_data) False,
                      pr_error = rd_error response_data,
                      pr_metrics = calculated_metrics,
                      pr_prompt_index = None\<rparr>))"

subsection \<open>BenchmarkRunner: one model\<close>

text \<open>
  The loop of \<^verbatim>\<open>_aggregate_prompt_results\<close> over \<^verbatim>\<open>prompt_results\<close> for one
  metric: the scores, and the raw values where the metric has one.
\<close>

definition collect_scores :: "prompt_result list \<Rightarrow> string \<Rightarrow> real list" where
  "collect_scores prompt_results metric =
     concat (map (\<lambda>result.
        if pr_success result
        then (case map_of (pr_metrics result) metric of
                None \<Rightarrow> []
              | Some metric_data \<Rightarrow> [md_score metric_data])
        else []) prompt_results)"

definition collect_raw_values :: "prompt_result list \<Rightarrow> string \<Rightarrow> real list" where
  "collect_raw_values prompt_results metric =
     concat (map (\<lambda>result.
        if pr_success result
        then (case map_of (pr_metrics result) metric of
                None \<Rightarrow> []
              | Some metric_data \<Rightarrow>
                  (case md_raw_value metric_data of None \<Rightarrow> [] | Some v \<Rightarrow> [v]))
        else []) prompt_results)"

text \<open>
  The statistics of a non-empty list \<^verbatim>\<open>scores\<close> with the raw values beside it;
  \<^verbatim>\<open>min\<close>, \<^verbatim>\<open>max\<close> and the division by \<^verbatim>\<open>len\<close> are only reached on a
  non-empty list (\<open>score0 # scores'\<close>).
\<close>

definition statistics :: "real \<Rightarrow> real list \<Rightarrow> real list \<Rightarrow> metric_aggregate" where
  "statistics score0 scores' raw_values =
     (let scores = score0 # scores'
      in \<lparr>ag_average_score = sum_list scores / real (length scores),
          ag_min_score = fold min scores' score0,
          ag_max_score = fold max scores' score0,
          ag_count = length scores,
          ag_average_raw =
            (case raw_values of [] \<Rightarrow> None
             | r # rs \<Rightarrow> Some (sum_list raw_values / real (length raw_values))),
          ag_min_raw = (case raw_values of [] \<Rightarrow> None | r # rs \<Rightarrow> Some (fold min rs r)),
          ag_max_raw = (case raw_values of [] \<Rightarrow> None | r # rs \<Rightarrow> Some (fold max rs r))\<rparr>)"

text \<open>The loop over \<^verbatim>\<open>metrics\<close>, before \<^verbatim>\<open>'overall_score'\<close> is added.\<close>

fun aggregate_metrics ::
  "prompt_result list \<Rightarrow> string list \<Rightarrow> (string \<times> metric_aggregate) list
     \<Rightarrow> (string \<times> metric_aggregate) list" where
  "aggregate_metrics prompt_results [] aggregated = aggregated"
| "aggregate_metrics prompt_results (metric # rest) aggregated =
     (let scores = collect_scores prompt_results metric;
          raw_values = collect_raw_values prompt_results metric
      in aggregate_metrics prompt_results rest
           (case scores of
              [] \<Rightarrow> aggregated
            | score0 # scores' \<Rightarrow> dict_set metric (statistics score0 scores' raw_values) aggregated))"

definition aggregate_prompt_results ::
  "prompt_result list \<Rightarrow> string list \<Rightarrow> py_error + aggregated" where
  "aggregate_prompt_results prompt_results metrics =
     (let aggregated = aggregate_metrics prompt_results metrics []
      in if aggregated \<noteq> []
         then let metric_scores = map (\<lambda>(metric, data). (metric, ag_average_score data)) aggregated
              in case aggregate_scores metric_scores None of
                   Inl e \<Rightarrow> Inl e
                 | Inr overall_score \<Rightarrow>
                     Inr (dict_set ''overall_score'' (Overall overall_score)
                            (map (\<lambda>(metric, data). (metric, MetricAgg data)) aggregated))
         else Inr [])"

text \<open>The loop over \<^verbatim>\<open>enumerate(prompts)\<close>, counting from \<open>i\<close>.\<close>

fun evaluate_prompts ::
  "connector \<Rightarrow> string list \<Rightarrow> model_info \<Rightarrow> nat \<Rightarrow> string list
     \<Rightarrow> py_error + prompt_result list" where
  "evaluate_prompts connector metrics model_info i [] = Inr []"
| "evaluate_prompts connector metrics model_info i (prompt # rest) =
     (case evaluate_single_prompt connector prompt metrics model_info of
        Inl e \<Rightarrow> Inl e
      | Inr prompt_result \<Rightarrow>
          (case evaluate_prompts connector metrics model_info (Suc i) rest of
             Inl e \<Rightarrow> Inl e
           | Inr prompt_results \<Rightarrow>
               Inr (prompt_result\<lparr>pr_prompt_index := Some i\<rparr> # prompt_results)))"

definition run_model_benchmark ::
  "connector \<Rightarrow> string list \<Rightarrow> string list \<Rightarrow> string \<Rightarrow> py_error + model_result" where
  "run_model_benchmark connector prompts metrics model_id =
     (let model_info = get_model_info connector
      in case evaluate_prompts connector metrics model_info 0 prompts of
           Inl e \<Rightarrow> Inl e
         | Inr prompt_results \<Rightarrow>
             (case aggregate_prompt_results prompt_results metrics of
                Inl e \<Rightarrow> Inl e
              | Inr aggregated_metrics \<Rightarrow>
                  Inr \<lparr>mr_model_id = model_id, mr_model_info = model_info,
                       mr_prompt_results = prompt_results,
                       mr_aggregated_metrics = Some aggregated_metrics\<rparr>))"

subsection \<open>BenchmarkRunner: the summary of a run\<close>

text \<open>
  \<^verbatim>\<open>scores.get('overall_score', 0)\<close>. A dict of statistics under that key is
  neither a number to report nor comparable in \<^verbatim>\<open>sorted\<close>;
  \<^verbatim>\<open>_aggregate_prompt_results\<close> never stores one there.
\<close>

definition get_overall_score :: "aggregated \<Rightarrow> py_error + real" where
  "get_overall_score scores =
     (case map_of scores ''overall_score'' of
        None \<Rightarrow> Inr 0
      | Some (Overall v) \<Rightarrow> Inr v
      | Some (MetricAgg a) \<Rightarrow> Inl TypeError)"

text \<open>
  \<^verbatim>\<open>scores.get(metric, {}).get('average_score', 0)\<close>: the float stored under
  \<^verbatim>\<open>'overall_score'\<close> has no method \<^verbatim>\<open>get\<close>.
\<close>

definition get_metric_score :: "aggregated \<Rightarrow> string \<Rightarrow> py_error + real" where
  "get_metric_score scores metric =
     (case map_of scores metric of
        None \<Rightarrow> Inr 0
      | Some (MetricAgg a) \<Rightarrow> Inr (ag_average_score a)
      | Some (Overall v) \<Rightarrow> Inl AttributeError)"

text \<open>A list comprehension whose element expression may raise: the first error wins.\<close>

fun comprehension :: "('a \<Rightarrow> py_error + 'b) \<Rightarrow> 'a list \<Rightarrow> py_error + 'b list" where
  "comprehension f [] = Inr []"
| "comprehension f (x # xs) =
     (case f x of
        Inl e \<Rightarrow> Inl e
      | Inr y \<Rightarrow> (case comprehension f xs of Inl e \<Rightarrow> Inl e | Inr ys \<Rightarrow> Inr (y # ys)))"

text \<open>
  \<^verbatim>\<open>sorted(entries, key=lambda x: x[1], reverse=True)\<close> on pairs of a model id and
  a score: descending by score and stable, so entries with equal scores keep their order.
\<close>

definition sorted_descending :: "ranking \<Rightarrow> ranking" where
  "sorted_descending entries = sort_key (\<lambda>entry. - snd entry) entries"

text \<open>The loop that fills \<^verbatim>\<open>model_scores\<close> from \<^verbatim>\<open>results.items()\<close>.\<close>

fun collect_model_scores ::
  "(string \<times> model_result) list \<Rightarrow> (string \<times> aggregated) list \<Rightarrow> (string \<times> aggregated) list" where
  "collect_model_scores [] model_scores = model_scores"
| "collect_model_scores ((model_id, model_data) # rest) model_scores =
     collect_model_scores rest
       (case mr_aggregated_metrics model_data of
          None \<Rightarrow> model_scores
        | Some aggregated_metrics \<Rightarrow> dict_set model_id aggregated_metrics model_scores)"

text \<open>The loop \<^verbatim>\<open>for metric in metrics\<close> of \<^verbatim>\<open>_calculate_summary\<close>.\<close>

fun rank_by_metrics ::
  "(string \<times> aggregated) list \<Rightarrow> string list \<Rightarrow> summary \<Rightarrow> py_error + summary" where
  "rank_by_metrics model_scores [] summary = Inr summary"
| "rank_by_metrics model_scores (metric # rest) summary =
     (case comprehension
             (\<lambda>(mid, scores).
                case get_metric_score scores metric of
                  Inl e \<Rightarrow> Inl e
                | Inr v \<Rightarrow> Inr (mid, v))
             model_scores of
        Inl e \<Rightarrow> Inl e
      | Inr entries \<Rightarrow>
          (let metric_rankings = sorted_descending entries;
               summary = summary\<lparr>sm_rankings := dict_set metric metric_rankings (sm_rankings summary)\<rparr>;
               summary =
                 (case metric_rankings of
                    [] \<Rightarrow> summary
                  | best # others \<Rightarrow>
                      summary\<lparr>sm_best_performers :=
                                 dict_set metric (fst best) (sm_best_performers summary)\<rparr>)
           in rank_by_metrics model_scores rest summary))"

definition calculate_summary ::
  "(string \<times> model_result) list \<Rightarrow> string list \<Rightarrow> py_error + summary" where
  "calculate_summary results metrics =
     (let summary = \<lparr>sm_rankings = [], sm_best_performers = [], sm_metric_averages = []\<rparr>;
          model_scores = collect_model_scores results []
      in if model_scores \<noteq> []
         then (case comprehension
                      (\<lambda>(model_id, scores).
                         case get_overall_score scores of
                           Inl e \<Rightarrow> Inl e
                         | Inr v \<Rightarrow> Inr (model_id, v))
                      model_scores of
                 Inl e \<Rightarrow> Inl e
               | Inr entries \<Rightarrow>
                   (let ranked_models = sorted_descending entries;
                        summary = summary\<lparr>sm_rankings :=
                                    dict_set ''overall'' ranked_models (sm_rankings summary)\<rparr>
                    in rank_by_metrics model_scores metrics summary))
         else Inr summary)"

subsection \<open>BenchmarkRunner: a whole run\<close>

text \<open>
  The model manager is the function \<^verbatim>\<open>get_model_connector\<close>, which gives no
  connector for a model that is unknown or has no credentials. The loop over
  \<^verbatim>\<open>model_ids\<close> fills \<^verbatim>\<open>benchmark_results['results']\<close>.
\<close>

fun run_models ::
  "(string \<Rightarrow> connector option) \<Rightarrow> string list \<Rightarrow> string list \<Rightarrow> string list
     \<Rightarrow> (string \<times> model_result) list \<Rightarrow> py_error + (string \<times> model_result) list" where
  "run_models get_model_connector prompts metrics [] results = Inr results"
| "run_models get_model_connector prompts metrics (model_id # rest) results =
     (case get_model_connector model_id of
        None \<Rightarrow> run_models get_model_connector prompts metrics rest results
      | Some connector \<Rightarrow>
          (case run_model_benchmark connector prompts metrics model_id of
             Inl e \<Rightarrow> Inl e
           | Inr model_results \<Rightarrow>
               run_models get_model_connector prompts metrics rest
                 (dict_set model_id model_results results)))"

text \<open>
  The state of the runner is \<^verbatim>\<open>results_store\<close>. The fresh identifier
  (\<^verbatim>\<open>uuid.uuid4()\<close>) and the clock (\<^verbatim>\<open>time.time()\<close>) are inputs. An exception
  leaves the store as it was.
\<close>

definition run_benchmark ::
  "(string \<Rightarrow> connector option) \<Rightarrow> (string \<times> benchmark_run) list \<Rightarrow> string \<Rightarrow> real
     \<Rightarrow> string list \<Rightarrow> string list \<Rightarrow> string list option
     \<Rightarrow> py_error + (benchmark_run \<times> (string \<times> benchmark_run) list)" where
  "run_benchmark get_model_connector results_store benchmark_id now prompts model_ids metrics =
     (let metrics = (case metrics of None \<Rightarrow> [''latency'', ''cost'', ''quality''] | Some ms \<Rightarrow> ms)
      in case run_models get_model_connector prompts metrics model_ids [] of
           Inl e \<Rightarrow> Inl e
         | Inr results \<Rightarrow>
             (case calculate_summary results metrics of
                Inl e \<Rightarrow> Inl e
              | Inr summary \<Rightarrow>
                  (let benchmark_results =
                         \<lparr>br_id = benchmark_id, br_timestamp = now, br_prompts = prompts,
                          br_model_ids = model_ids, br_metrics = metrics,
                          br_results = results, br_summary = summary\<rparr>
                   in Inr (benchmark_results,
                           dict_set benchmark_id benchmark_results results_store))))"

subsection \<open>Leaderboard\<close>

text \<open>The auxiliary field of a leaderboard entry, which depends on the view.\<close>

datatype entry_context = Provider string | AvgLatency real | AvgCost real | AvgQuality real

type_synonym leaderboard_entry = "string \<times> real \<times> entry_context"

record leaderboard =
  rankings_cache :: "(string \<times> leaderboard_entry list) list"
  last_update :: real
  cache_duration :: real

definition new_leaderboard :: leaderboard where
  "new_leaderboard = \<lparr>rankings_cache = [], last_update = 0, cache_duration = 300\<rparr>"

definition mock_rankings :: "(string \<times> leaderboard_entry list) list" where
  "mock_rankings =
     [(''overall'',
        [(''openai_gpt-4'', 852 / 10, Provider ''OpenAI''),
         (''anthropic_claude-3-opus-20240229'', 837 / 10, Provider ''Anthropic''),
         (''anthropic_claude-3-sonnet-20240229'', 791 / 10, Provider ''Anthropic''),
         (''openai_gpt-3.5-turbo'', 743 / 10, Provider ''OpenAI''),
         (''anthropic_claude-3-haiku-20240307'', 718 / 10, Provider ''Anthropic'')]),
      (''latency'',
        [(''anthropic_claude-3-haiku-20240307'', 921 / 10, AvgLatency (8 / 10)),
         (''openai_gpt-3.5-turbo'', 876 / 10, AvgLatency (12 / 10)),
         (''anthropic_claude-3-sonnet-20240229'', 823 / 10, AvgLatency (18 / 10)),
         (''openai_gpt-4'', 754 / 10, AvgLatency (25 / 10)),
         (''anthropic_claude-3-opus-20240229'', 689 / 10, AvgLatency (32 / 10))]),
      (''cost'',
        [(''anthropic_claude-3-haiku-20240307'', 958 / 10, AvgCost (25 / 10000)),
         (''openai_gpt-3.5-turbo'', 932 / 10, AvgCost (2 / 1000)),
         (''anthropic_claude-3-sonnet-20240229'', 784 / 10, AvgCost (15 / 1000)),
         (''openai_gpt-4'', 621 / 10, AvgCost (3 / 100)),
         (''anthropic_claude-3-opus-20240229'', 453 / 10, AvgCost (75 / 1000))]),
      (''quality'',
        [(''openai_gpt-4'', 917 / 10, AvgQuality (917 / 10)),
         (''anthropic_claude-3-opus-20240229'', 902 / 10, AvgQuality (902 / 10)),
         (''anthropic_claude-3-sonnet-20240229'', 856 / 10, AvgQuality (856 / 10)),
         (''openai_gpt-3.5-turbo'', 789 / 10, AvgQuality (789 / 10)),
         (''anthropic_claude-3-haiku-20240307'', 764 / 10, AvgQuality (764 / 10))])]"

record rankings_view =
  rv_rankings :: "leaderboard_entry list"
  rv_last_updated :: real
  rv_total_benchmarks :: nat
  rv_total_models :: nat

text \<open>\<^verbatim>\<open>get_rankings\<close> reads the clock (\<open>now\<close>) and nothing of the leaderboard.\<close>

definition get_rankings :: "leaderboard \<Rightarrow> string \<Rightarrow> real \<Rightarrow> rankings_view" where
  "get_rankings self metric now =
     \<lparr>rv_rankings = dict_get mock_rankings metric (dict_get mock_rankings ''overall'' []),
      rv_last_updated = now, rv_total_benchmarks = 15, rv_total_models = 5\<rparr>"

definition update_rankings :: "leaderboard \<Rightarrow> benchmark_run \<Rightarrow> real \<Rightarrow> leaderboard" where
  "update_rankings self benchmark_results now =
     self\<lparr>rankings_cache := [], last_update := now\<rparr>"

subsection \<open>Vocabulary of the properties\<close>

text \<open>The metrics \<^verbatim>\<open>_evaluate_single_prompt\<close> computes, in the order it stores them.\<close>

definition known_metrics :: "string list" where
  "known_metrics = [''latency'', ''cost'', ''quality'', ''context_utilization'']"

text \<open>Whether the generation for a prompt succeeded: the flag the runner reads.\<close>

definition succeeded :: "connector \<Rightarrow> string \<Rightarrow> bool" where
  "succeeded connector prompt = get_or (rd_success (generate_response connector prompt)) False"

text \<open>
  What a list of prompt results holds for a metric: the score of a prompt result (0 when
  it has no entry for the metric), and the raw values of those that have one.
\<close>

definition score_in :: "prompt_result \<Rightarrow> string \<Rightarrow> real" where
  "score_in result metric =
     (case map_of (pr_metrics result) metric of None \<Rightarrow> 0 | Some metric_data \<Rightarrow> md_score metric_data)"

definition raw_values_in :: "prompt_result list \<Rightarrow> string \<Rightarrow> real list" where
  "raw_values_in prompt_results metric =
     concat (map (\<lambda>result.
        case map_of (pr_metrics result) metric of
          None \<Rightarrow> []
        | Some metric_data \<Rightarrow> (case md_raw_value metric_data of None \<Rightarrow> [] | Some v \<Rightarrow> [v]))
        prompt_results)"

text \<open>The prompt results of a model whose generation succeeded.\<close>

definition succeeded_results :: "model_result \<Rightarrow> prompt_result list" where
  "succeeded_results model_data = filter pr_success (mr_prompt_results model_data)"

text \<open>The average scores an aggregated dict holds, metric by metric.\<close>

definition metric_averages_of :: "aggregated \<Rightarrow> (string \<times> real) list" where
  "metric_averages_of scores =
     concat (map (\<lambda>(metric, data).
        case data of MetricAgg a \<Rightarrow> [(metric, ag_average_score a)] | Overall v \<Rightarrow> []) scores)"

text \<open>The elements of a list in the order of their first appearance.\<close>

fun first_occurrences :: "'a list \<Rightarrow> 'a list" where
  "first_occurrences [] = []"
| "first_occurrences (x # xs) = x # first_occurrences (filter (\<lambda>y. y \<noteq> x) xs)"

text \<open>The score a model gets in the ranking of a metric, and in the overall ranking.\<close>

definition metric_score_of :: "aggregated \<Rightarrow> string \<Rightarrow> real" where
  "metric_score_of scores metric =
     (case map_of scores metric of Some (MetricAgg a) \<Rightarrow> ag_average_score a | _ \<Rightarrow> 0)"

definition overall_score_of :: "aggregated \<Rightarrow> real" where
  "overall_score_of scores =
     (case map_of scores ''overall_score'' of Some (Overall v) \<Rightarrow> v | _ \<Rightarrow> 0)"

text \<open>The aggregated metrics of a model in \<^verbatim>\<open>results\<close>.\<close>

definition aggregated_of :: "model_result \<Rightarrow> aggregated" where
  "aggregated_of model_data = get_or (mr_aggregated_metrics model_data) []"

text \<open>
  An entry of \<^verbatim>\<open>results\<close> is produced by the runner when it is what
  \<^verbatim>\<open>_run_model_benchmark\<close> returns for the connector of its model.
\<close>

definition produced_by ::
  "(string \<Rightarrow> connector option) \<Rightarrow> string list \<Rightarrow> string list
     \<Rightarrow> string \<times> model_result \<Rightarrow> bool" where
  "produced_by get_model_connector prompts metrics entry =
     (case get_model_connector (fst entry) of
        None \<Rightarrow> False
      | Some connector \<Rightarrow>
          run_model_benchmark connector prompts metrics (fst entry) = Inr (snd entry))"

text \<open>The metrics of a run: the default when the caller passes none.\<close>

definition requested_metrics :: "string list option \<Rightarrow> string list" where
  "requested_metrics metrics =
     (case metrics of None \<Rightarrow> [''latency'', ''cost'', ''quality''] | Some ms \<Rightarrow> ms)"

subsection \<open>Concrete connectors\<close>

text \<open>
  A model that answers every prompt in five seconds, one whose every generation fails
  after half a second with the failure record of \<^verbatim>\<open>GPTConnector\<close>, and a manager
  that knows the two under the ids \<open>good\<close> and \<open>bad\<close>, and the first one also
  under the id \<open>twin\<close>.
\<close>

definition mock_info :: model_info where
  "mock_info =
     \<lparr>mi_name = ''test-model'', mi_provider = ''Mock'', mi_max_context_length = Some 4096,
      mi_cost_per_1k_tokens = Some (1 / 100), mi_modalities = [''text'']\<rparr>"

definition good_connector :: connector where
  "good_connector =
     \<lparr>get_model_info = mock_info,
      generate_response = (\<lambda>prompt.
         \<lparr>rd_response = Some (Some ''Fine answer.''), rd_latency = Some 5,
          rd_tokens_used = Some 100, rd_success = Some True, rd_error = None\<rparr>)\<rparr>"

definition failing_connector :: connector where
  "failing_connector =
     \<lparr>get_model_info = mock_info,
      generate_response = (\<lambda>prompt.
         \<lparr>rd_response = Some None, rd_latency = Some (1 / 2),
          rd_tokens_used = Some 0, rd_success = Some False, rd_error = Some ''timeout''\<rparr>)\<rparr>"

text \<open>A model whose generation fails for the prompt \<open>p1\<close> only.\<close>

definition flaky_connector :: connector where
  "flaky_connector =
     \<lparr>get_model_info = mock_info,
      generate_response = (\<lambda>prompt.
         if prompt = ''p1'' then generate_response failing_connector prompt
         else generate_response good_connector prompt)\<rparr>"

definition mock_manager :: "string \<Rightarrow> connector option" where
  "mock_manager model_id =
     (if model_id = ''good'' \<or> model_id = ''twin'' then Some good_connector
      else if model_id = ''bad'' then Some failing_connector
      else None)"

text \<open>
  A run on the mock manager with the default metrics, an empty store, the identifier
  \<open>run-1\<close> and the clock at 0.
\<close>

definition mock_run ::
  "string list \<Rightarrow> string list \<Rightarrow> py_error + benchmark_run \<times> (string \<times> benchmark_run) list" where
  "mock_run prompts model_ids = run_benchmark mock_manager [] ''run-1'' 0 prompts model_ids None"

section \<open>Properties of the numeric scores\<close>

lemma accumulate_scores_sums:
  "accumulate_scores w scores (ts, tw) =
     (ts + (\<Sum>(m, s) \<leftarrow> scores. s * dict_get w m (1 / 10)),
      tw + (\<Sum>(m, s) \<leftarrow> scores. dict_get w m (1 / 10)))"
proof (induction scores arbitrary: ts tw)
  case Nil
  show ?case by simp
next
  case (Cons p scores)
  obtain m s where p: "p = (m, s)" by (cases p)
  show ?case by (simp add: p Cons.IH Let_def add.assoc)
qed

lemma aggregate_scores_unfold:
  "scores \<noteq> [] \<Longrightarrow>
   aggregate_scores scores weights =
     (if total_weight_of weights scores > 0
      then py_truediv (weighted_sum_of weights scores) (total_weight_of weights scores)
      else Inr 0)"
  by (simp add: aggregate_scores_def accumulate_scores_sums total_weight_of_def
      weighted_sum_of_def weight_of_def effective_weights_def Let_def)

lemma default_weight_positive: "0 < weight_of None m"
  by (simp add: weight_of_def effective_weights_def default_weights_def dict_get_def)

lemma total_default_weight_positive:
  "scores \<noteq> [] \<Longrightarrow> 0 < total_weight_of None scores"
proof (induction scores)
  case Nil
  then show ?case by simp
next
  case (Cons p scores)
  obtain m s where p: "p = (m, s)" by (cases p)
  have "0 \<le> total_weight_of None scores"
    unfolding total_weight_of_def
    by (rule sum_list_nonneg) (auto simp: less_imp_le default_weight_positive)
  with default_weight_positive [of m] show ?case
    by (simp add: total_weight_of_def p)
qed

text \<open>
  C5. The latency score is 100 up to one second, 0 from ten seconds on and
  \<open>100 \<sqdot> (10 - latency) / 9\<close> in between; it never increases with the latency; it is
  100 at 1.0, within 0.05 of 55.6 at 5.0 and 0 at 10.0.
\<close>

theorem calculate_latency_score_piecewise:
  "calculate_latency_score latency =
     (if latency \<le> 1 then 100 else if latency \<ge> 10 then 0 else 100 * (10 - latency) / 9)
   \<and> (\<forall>a b. a \<le> b \<longrightarrow> calculate_latency_score b \<le> calculate_latency_score a)
   \<and> calculate_latency_score 1 = 100
   \<and> \<bar>calculate_latency_score 5 - 556 / 10\<bar> < 5 / 100
   \<and> calculate_latency_score 10 = 0"
proof -
  have shape: "calculate_latency_score l =
      (if l \<le> 1 then 100 else if l \<ge> 10 then 0 else 100 * (10 - l) / 9)" for l
    by (simp add: calculate_latency_score_def max_def)
  have mono: "calculate_latency_score b \<le> calculate_latency_score a" if "a \<le> b" for a b
    using that by (simp add: shape)
  have at5: "\<bar>calculate_latency_score 5 - 556 / 10\<bar> < 5 / 100"
    by (simp add: shape)
  show ?thesis
    using shape [of latency] mono at5 shape [of 1] shape [of 10] by simp
qed

theorem calculate_latency_score_piecewise_witness:
  "(2::real) \<le> 4 \<and> calculate_latency_score 4 \<le> calculate_latency_score 2
   \<and> calculate_latency_score 4 = 200 / 3"
proof -
  have "calculate_latency_score 4 \<le> calculate_latency_score 2"
    using calculate_latency_score_piecewise [of 0] by simp
  moreover have "calculate_latency_score 4 = 200 / 3"
    using calculate_latency_score_piecewise [of 4] by simp
  ultimately show ?thesis by simp
qed

text \<open>
  C6, as the code has it. An empty scores mapping gives 0. A non-empty one gives the
  weighted mean \<open>\<Sigma> score \<sqdot> weight / \<Sigma> weight\<close> when the total weight is positive, which
  it always is with the default weights, and 0 when the total weight is not positive.
  Without a weights mapping the weights are latency 0.3, cost 0.2, quality 0.4 and
  context_utilization 0.1; a metric absent from the weights in force weighs 0.1.
  Scores a:100 and b:0 with weights a:1 and b:1 aggregate to 50.
\<close>

theorem aggregate_scores_weighted_mean:
  "aggregate_scores [] weights = Inr 0
   \<and> (scores \<noteq> [] \<and> 0 < total_weight_of weights scores \<longrightarrow>
        aggregate_scores scores weights =
          Inr (weighted_sum_of weights scores / total_weight_of weights scores))
   \<and> (scores \<noteq> [] \<and> total_weight_of weights scores \<le> 0 \<longrightarrow>
        aggregate_scores scores weights = Inr 0)
   \<and> (scores \<noteq> [] \<longrightarrow>
        aggregate_scores scores None =
          Inr (weighted_sum_of None scores / total_weight_of None scores))
   \<and> weight_of None ''latency'' = 3 / 10 \<and> weight_of None ''cost'' = 2 / 10
   \<and> weight_of None ''quality'' = 4 / 10 \<and> weight_of None ''context_utilization'' = 1 / 10
   \<and> (map_of (effective_weights weights) m = None \<longrightarrow> weight_of weights m = 1 / 10)
   \<and> (map_of w m = Some x \<longrightarrow> weight_of (Some w) m = x)
   \<and> aggregate_scores [(''a'', 100), (''b'', 0)] (Some [(''a'', 1), (''b'', 1)]) = Inr 50"
proof -
  have empty: "aggregate_scores [] weights = Inr 0"
    by (simp add: aggregate_scores_def)
  have pos: "aggregate_scores scores weights =
      Inr (weighted_sum_of weights scores / total_weight_of weights scores)"
    if "scores \<noteq> []" "0 < total_weight_of weights scores"
    using that by (simp add: aggregate_scores_unfold py_truediv_def)
  have nonpos: "aggregate_scores scores weights = Inr 0"
    if "scores \<noteq> []" "total_weight_of weights scores \<le> 0"
    using that by (simp add: aggregate_scores_unfold)
  have dflt: "aggregate_scores scores None =
      Inr (weighted_sum_of None scores / total_weight_of None scores)"
    if "scores \<noteq> []"
    using that total_default_weight_positive [OF that]
    by (simp add: aggregate_scores_unfold py_truediv_def)
  have table: "weight_of None ''latency'' = 3 / 10" "weight_of None ''cost'' = 2 / 10"
    "weight_of None ''quality'' = 4 / 10" "weight_of None ''context_utilization'' = 1 / 10"
    by (simp_all add: weight_of_def effective_weights_def default_weights_def dict_get_def)
  have absent: "weight_of weights m = 1 / 10" if "map_of (effective_weights weights) m = None"
    using that by (simp add: weight_of_def dict_get_def)
  have present: "weight_of (Some w) m = x" if "map_of w m = Some x"
    using that by (simp add: weight_of_def effective_weights_def dict_get_def)
  have example: "aggregate_scores [(''a'', 100), (''b'', 0)] (Some [(''a'', 1), (''b'', 1)]) = Inr 50"
    by (simp add: aggregate_scores_def dict_get_def py_truediv_def)
  show ?thesis
    using empty pos nonpos dflt table absent present example by blast
qed

theorem aggregate_scores_weighted_mean_witness:
  "[(''a'', 100), (''b'', 0)] \<noteq> ([] :: (string \<times> real) list)
   \<and> 0 < total_weight_of (Some [(''a'', 1)]) [(''a'', 100), (''b'', 0)]
   \<and> map_of (effective_weights (Some [(''a'', 1)])) ''b'' = None
   \<and> map_of [(''a'', 1 :: real)] ''a'' = Some 1
   \<and> weight_of (Some [(''a'', 1)]) ''b'' = 1 / 10
   \<and> weight_of (Some [(''a'', 1)]) ''a'' = 1
   \<and> aggregate_scores [(''a'', 100), (''b'', 0)] (Some [(''a'', 1)]) = Inr (1000 / 11)
   \<and> total_weight_of (Some [(''a'', 0)]) [(''a'', 100)] \<le> 0
   \<and> aggregate_scores [(''a'', 100)] (Some [(''a'', 0)]) = Inr 0"
proof -
  have tot: "total_weight_of (Some [(''a'', 1)]) [(''a'', 100), (''b'', 0)] = 11 / 10"
    by (simp add: total_weight_of_def weight_of_def effective_weights_def dict_get_def)
  have wsum: "weighted_sum_of (Some [(''a'', 1)]) [(''a'', 100), (''b'', 0)] = 100"
    by (simp add: weighted_sum_of_def weight_of_def effective_weights_def dict_get_def)
  have tot0: "total_weight_of (Some [(''a'', 0)]) [(''a'', 100)] = 0"
    by (simp add: total_weight_of_def weight_of_def effective_weights_def dict_get_def)
  have absent: "map_of (effective_weights (Some [(''a'', 1 :: real)])) ''b'' = None"
    by (simp add: effective_weights_def)
  show ?thesis
    using aggregate_scores_weighted_mean
      [of "Some [(''a'', 1)]" "[(''a'', 100), (''b'', 0)]" "''b''" "[(''a'', 1)]" 1]
      aggregate_scores_weighted_mean
      [of "Some [(''a'', 1)]" "[(''a'', 100), (''b'', 0)]" "''a''" "[(''a'', 1)]" 1]
      aggregate_scores_weighted_mean
      [of "Some [(''a'', 0)]" "[(''a'', 100)]" "''a''" "[(''a'', 0)]" 0]
      tot wsum tot0 absent
    by simp
qed

text \<open>
  The claim as the specification states it fails when the total weight is negative:
  score 100 under weight -1 has weighted mean 100, and the code returns 0.
\<close>

theorem aggregate_scores_weighted_mean_counterexample:
  "aggregate_scores [(''a'', 100)] (Some [(''a'', - 1)])
     \<noteq> Inr (weighted_sum_of (Some [(''a'', - 1)]) [(''a'', 100)]
             / total_weight_of (Some [(''a'', - 1)]) [(''a'', 100)])"
  by (simp add: aggregate_scores_def weighted_sum_of_def total_weight_of_def weight_of_def
      effective_weights_def dict_get_def)

text \<open>
  C10. \<^verbatim>\<open>aggregate_scores\<close> never raises: for every scores mapping and every
  weights mapping it returns a number, and it returns 0 whenever the total weight is 0,
  in particular when every metric present in scores has weight 0.
\<close>

theorem aggregate_scores_total:
  "scores \<noteq> [] \<Longrightarrow>
   (\<exists>r. aggregate_scores scores weights = Inr r)
   \<and> (total_weight_of weights scores = 0 \<longrightarrow> aggregate_scores scores weights = Inr 0)
   \<and> ((\<forall>(m, s) \<in> set scores. weight_of weights m = 0) \<longrightarrow>
        aggregate_scores scores weights = Inr 0)"
proof -
  assume ne: "scores \<noteq> []"
  have returns: "\<exists>r. aggregate_scores scores weights = Inr r"
    by (simp add: aggregate_scores_unfold [OF ne] py_truediv_def)
  have zero: "aggregate_scores scores weights = Inr 0" if "total_weight_of weights scores = 0"
    using that by (simp add: aggregate_scores_unfold [OF ne])
  have all_zero: "total_weight_of weights scores = 0"
    if "\<forall>(m, s) \<in> set scores. weight_of weights m = 0"
  proof -
    have "(\<Sum>(m, s) \<leftarrow> scores. weight_of weights m) = (\<Sum>p \<leftarrow> scores. 0)"
      using that by (intro arg_cong [where f = sum_list] map_cong) auto
    then show ?thesis by (simp add: total_weight_of_def)
  qed
  show ?thesis using returns zero all_zero by blast
qed

theorem aggregate_scores_total_witness:
  "[(''a'', 100), (''b'', 50)] \<noteq> ([] :: (string \<times> real) list)
   \<and> total_weight_of (Some [(''a'', 0), (''b'', 0)]) [(''a'', 100), (''b'', 50)] = 0
   \<and> weight_of (Some [(''a'', 0), (''b'', 0)]) ''a'' = 0
   \<and> weight_of (Some [(''a'', 0), (''b'', 0)]) ''b'' = 0
   \<and> aggregate_scores [(''a'', 100), (''b'', 50)] (Some [(''a'', 0), (''b'', 0)]) = Inr 0
   \<and> py_truediv 0 0 = Inl ZeroDivisionError"
proof -
  have ne: "[(''a'', 100), (''b'', 50)] \<noteq> ([] :: (string \<times> real) list)" by simp
  have tot: "total_weight_of (Some [(''a'', 0), (''b'', 0)]) [(''a'', 100), (''b'', 50)] = 0"
    by (simp add: total_weight_of_def weight_of_def effective_weights_def dict_get_def)
  have each: "\<forall>(m, s) \<in> set [(''a'', 100 :: real), (''b'', 50)].
      weight_of (Some [(''a'', 0), (''b'', 0)]) m = 0"
    by (simp add: weight_of_def effective_weights_def dict_get_def)
  show ?thesis
    using aggregate_scores_total [OF ne, of "Some [(''a'', 0), (''b'', 0)]"] tot each
    by (simp add: py_truediv_def)
qed

section \<open>Properties of the text quality score\<close>




section \<open>Properties of the leaderboard\<close>

text \<open>
  C9. After \<^verbatim>\<open>update_rankings\<close> with any run, \<^verbatim>\<open>get_rankings\<close> returns what it
  returned before: the fixed table of five models. The run is not incorporated; a model
  \<open>mock_test\<close> that a run has evaluated is not among the entries.
\<close>

theorem get_rankings_after_update:
  "rv_rankings (get_rankings (update_rankings self benchmark_results t1) metric t2)
     = rv_rankings (get_rankings self metric t2)
   \<and> rv_rankings (get_rankings (update_rankings self benchmark_results t1) metric t2)
     = dict_get mock_rankings metric (dict_get mock_rankings ''overall'' [])
   \<and> map fst (rv_rankings (get_rankings (update_rankings self benchmark_results t1) ''overall'' t2))
     = [''openai_gpt-4'', ''anthropic_claude-3-opus-20240229'',
        ''anthropic_claude-3-sonnet-20240229'', ''openai_gpt-3.5-turbo'',
        ''anthropic_claude-3-haiku-20240307'']
   \<and> ''mock_test'' \<notin> fst ` set (rv_rankings
         (get_rankings (update_rankings self benchmark_results t1) ''overall'' t2))"
  by (simp add: get_rankings_def update_rankings_def dict_get_def mock_rankings_def)

section \<open>Properties of the benchmark runner\<close>

subsection \<open>Dicts\<close>

lemma map_of_dict_set: "map_of (dict_set k v d) = (map_of d)(k \<mapsto> v)"
  by (induction d) (auto simp: fun_eq_iff)

lemma dict_set_fresh: "k \<notin> fst ` set d \<Longrightarrow> dict_set k v d = d @ [(k, v)]"
  by (induction d) auto

lemma dict_set_present: "map_of d k = Some v \<Longrightarrow> dict_set k v d = d"
  by (induction d) (auto split: if_splits)

lemma keys_dict_set: "fst ` set (dict_set k v d) = insert k (fst ` set d)"
  by (simp add: dom_map_of_conv_image_fst [symmetric] map_of_dict_set)

lemma dict_set_not_empty: "dict_set k v d \<noteq> []"
  by (cases d) (auto split: if_splits)

lemma distinct_dict_set: "distinct (map fst d) \<Longrightarrow> distinct (map fst (dict_set k v d))"
  by (induction d) (auto simp: keys_dict_set)

lemma calculate_cost_score_default:
  "calculate_cost_score cost (1 / 10) =
     Inr (if cost \<le> 0 then 100 else (1 - min (cost / (1 / 10)) 1) * 100)"
  by (simp add: calculate_cost_score_def py_truediv_def Let_def)

lemma evaluate_single_prompt_returns:
  "\<exists>r. evaluate_single_prompt connector prompt metrics model_info = Inr r
       \<and> pr_prompt r = prompt
       \<and> pr_success r = succeeded connector prompt
       \<and> map fst (pr_metrics r) = filter (\<lambda>k. k \<in> set metrics) known_metrics"
  by (simp add: evaluate_single_prompt_def calculate_cost_score_default Let_def
      succeeded_def known_metrics_def dict_set_fresh)

lemma evaluate_prompts_returns:
  "\<exists>rs. evaluate_prompts connector metrics model_info i prompts = Inr rs
        \<and> length rs = length prompts
        \<and> (\<forall>j < length prompts.
              pr_prompt (rs ! j) = prompts ! j
              \<and> pr_prompt_index (rs ! j) = Some (i + j)
              \<and> pr_success (rs ! j) = succeeded connector (prompts ! j)
              \<and> map fst (pr_metrics (rs ! j)) = filter (\<lambda>k. k \<in> set metrics) known_metrics)"
proof (induction prompts arbitrary: i)
  case Nil
  show ?case by simp
next
  case (Cons prompt rest)
  obtain r where r: "evaluate_single_prompt connector prompt metrics model_info = Inr r"
      "pr_prompt r = prompt" "pr_success r = succeeded connector prompt"
      "map fst (pr_metrics r) = filter (\<lambda>k. k \<in> set metrics) known_metrics"
    using evaluate_single_prompt_returns by blast
  obtain rs where rs: "evaluate_prompts connector metrics model_info (Suc i) rest = Inr rs"
      "length rs = length rest"
      "\<forall>j < length rest.
          pr_prompt (rs ! j) = rest ! j
          \<and> pr_prompt_index (rs ! j) = Some (Suc i + j)
          \<and> pr_success (rs ! j) = succeeded connector (rest ! j)
          \<and> map fst (pr_metrics (rs ! j)) = filter (\<lambda>k. k \<in> set metrics) known_metrics"
    using Cons.IH [of "Suc i"] by blast
  have "\<forall>j < length (prompt # rest).
          pr_prompt ((r\<lparr>pr_prompt_index := Some i\<rparr> # rs) ! j) = (prompt # rest) ! j
          \<and> pr_prompt_index ((r\<lparr>pr_prompt_index := Some i\<rparr> # rs) ! j) = Some (i + j)
          \<and> pr_success ((r\<lparr>pr_prompt_index := Some i\<rparr> # rs) ! j)
              = succeeded connector ((prompt # rest) ! j)
          \<and> map fst (pr_metrics ((r\<lparr>pr_prompt_index := Some i\<rparr> # rs) ! j))
              = filter (\<lambda>k. k \<in> set metrics) known_metrics"
  proof (intro allI impI)
    fix j assume "j < length (prompt # rest)"
    then show "pr_prompt ((r\<lparr>pr_prompt_index := Some i\<rparr> # rs) ! j) = (prompt # rest) ! j
          \<and> pr_prompt_index ((r\<lparr>pr_prompt_index := Some i\<rparr> # rs) ! j) = Some (i + j)
          \<and> pr_success ((r\<lparr>pr_prompt_index := Some i\<rparr> # rs) ! j)
              = succeeded connector ((prompt # rest) ! j)
          \<and> map fst (pr_metrics ((r\<lparr>pr_prompt_index := Some i\<rparr> # rs) ! j))
              = filter (\<lambda>k. k \<in> set metrics) known_metrics"
      using r rs(3) by (cases j) simp_all
  qed
  then show ?case
    using r(1) rs(1,2) by simp
qed

lemma evaluate_single_prompt_values:
  "\<exists>r. evaluate_single_prompt connector prompt metrics model_info = Inr r
       \<and> pr_prompt r = prompt
       \<and> pr_response r = get_or (rd_response (generate_response connector prompt)) (Some [])
       \<and> pr_success r = succeeded connector prompt
       \<and> pr_error r = rd_error (generate_response connector prompt)
       \<and> pr_prompt_index r = None
       \<and> map fst (pr_metrics r) = filter (\<lambda>k. k \<in> set metrics) known_metrics
       \<and> (''latency'' \<in> set metrics \<longrightarrow>
             map_of (pr_metrics r) ''latency'' =
               Some \<lparr>md_score = calculate_latency_score
                                  (get_or (rd_latency (generate_response connector prompt)) 0),
                     md_raw_value = Some (get_or (rd_latency (generate_response connector prompt)) 0),
                     md_tokens_used = None, md_prompt_length = None, md_max_context = None\<rparr>)
       \<and> (''cost'' \<in> set metrics \<longrightarrow>
             (\<exists>cost_score.
                calculate_cost_score
                  (real_of_int (get_or (rd_tokens_used (generate_response connector prompt)) 0) / 1000
                     * get_or (mi_cost_per_1k_tokens model_info) 0) (1 / 10) = Inr cost_score
              \<and> map_of (pr_metrics r) ''cost'' =
                  Some \<lparr>md_score = cost_score,
                        md_raw_value =
                          Some (real_of_int (get_or (rd_tokens_used (generate_response connector prompt)) 0)
                                  / 1000 * get_or (mi_cost_per_1k_tokens model_info) 0),
                        md_tokens_used = Some (get_or (rd_tokens_used (generate_response connector prompt)) 0),
                        md_prompt_length = None, md_max_context = None\<rparr>))
       \<and> (''quality'' \<in> set metrics \<longrightarrow>
             map_of (pr_metrics r) ''quality'' =
               Some \<lparr>md_score = calculate_quality_score
                                  (get_or (rd_response (generate_response connector prompt)) (Some []))
                                  None,
                     md_raw_value = None, md_tokens_used = None, md_prompt_length = None,
                     md_max_context = None\<rparr>)
       \<and> (''context_utilization'' \<in> set metrics \<longrightarrow>
             map_of (pr_metrics r) ''context_utilization'' =
               Some \<lparr>md_score = calculate_context_utilization_score
                                  (int (length (py_split prompt)))
                                  (get_or (mi_max_context_length model_info) 4096),
                     md_raw_value = None, md_tokens_used = None,
                     md_prompt_length = Some (int (length (py_split prompt))),
                     md_max_context = Some (get_or (mi_max_context_length model_info) 4096)\<rparr>)"
  by (simp add: evaluate_single_prompt_def calculate_cost_score_default Let_def
      succeeded_def known_metrics_def dict_set_fresh)

lemma evaluate_prompts_nth:
  "\<exists>rs. evaluate_prompts connector metrics model_info i prompts = Inr rs
        \<and> length rs = length prompts
        \<and> (\<forall>j < length prompts.
              \<exists>r. evaluate_single_prompt connector (prompts ! j) metrics model_info = Inr r
                 \<and> rs ! j = r\<lparr>pr_prompt_index := Some (i + j)\<rparr>)"
proof (induction prompts arbitrary: i)
  case Nil
  show ?case by simp
next
  case (Cons prompt rest)
  obtain r where r: "evaluate_single_prompt connector prompt metrics model_info = Inr r"
    using evaluate_single_prompt_returns by blast
  obtain rs where rs: "evaluate_prompts connector metrics model_info (Suc i) rest = Inr rs"
      "length rs = length rest"
      "\<forall>j < length rest.
          \<exists>r. evaluate_single_prompt connector (rest ! j) metrics model_info = Inr r
             \<and> rs ! j = r\<lparr>pr_prompt_index := Some (Suc i + j)\<rparr>"
    using Cons.IH [of "Suc i"] by blast
  have "\<exists>r'. evaluate_single_prompt connector ((prompt # rest) ! j) metrics model_info = Inr r'
          \<and> (r\<lparr>pr_prompt_index := Some i\<rparr> # rs) ! j = r'\<lparr>pr_prompt_index := Some (i + j)\<rparr>"
    if j: "j < length (prompt # rest)" for j
  proof (cases j)
    case 0
    then show ?thesis using r by simp
  next
    case (Suc j')
    then have "j' < length rest" using j by simp
    with rs(3) Suc show ?thesis by simp
  qed
  then show ?case
    using r rs(1,2) by simp
qed

lemma length_collect_scores:
  "length (collect_scores prs m) =
     length (filter (\<lambda>r. pr_success r \<and> m \<in> fst ` set (pr_metrics r)) prs)"
proof (induction prs)
  case Nil
  show ?case by (simp add: collect_scores_def)
next
  case (Cons r prs)
  have "(map_of (pr_metrics r) m = None) = (m \<notin> fst ` set (pr_metrics r))"
    by (simp add: map_of_eq_None_iff)
  with Cons show ?case
    by (auto simp: collect_scores_def split: option.splits)
qed

lemma map_of_aggregate_metrics:
  "map_of (aggregate_metrics prs ms acc) m =
     (if m \<in> set ms \<and> collect_scores prs m \<noteq> []
      then Some (statistics (hd (collect_scores prs m)) (tl (collect_scores prs m))
                   (collect_raw_values prs m))
      else map_of acc m)"
proof (induction ms arbitrary: acc)
  case Nil
  show ?case by simp
next
  case (Cons metric rest)
  show ?case
    by (cases "collect_scores prs metric") (auto simp: Cons.IH Let_def map_of_dict_set)
qed

lemma aggregate_metrics_empty:
  "(aggregate_metrics prs ms acc = []) = (acc = [] \<and> (\<forall>m \<in> set ms. collect_scores prs m = []))"
proof (induction ms arbitrary: acc)
  case Nil
  show ?case by simp
next
  case (Cons metric rest)
  show ?case
    by (cases "collect_scores prs metric") (auto simp: Cons.IH Let_def dict_set_not_empty)
qed

subsection \<open>The aggregation for one model\<close>

lemma aggregate_scores_returns: "\<exists>r. aggregate_scores scores weights = Inr r"
proof (cases "scores = []")
  case True
  then show ?thesis by (simp add: aggregate_scores_def)
next
  case False
  then show ?thesis by (simp add: aggregate_scores_unfold py_truediv_def)
qed

lemma map_of_wrap:
  "map_of (map (\<lambda>(metric, data). (metric, MetricAgg data)) d) m = map_option MetricAgg (map_of d m)"
  by (induction d) auto

lemma aggregate_prompt_results_returns:
  "\<exists>agg. aggregate_prompt_results prs ms = Inr agg
     \<and> (agg = []) = (aggregate_metrics prs ms [] = [])
     \<and> (\<forall>m. m \<noteq> ''overall_score'' \<longrightarrow>
           map_of agg m = map_option MetricAgg (map_of (aggregate_metrics prs ms []) m))
     \<and> (\<forall>a. map_of agg ''overall_score'' \<noteq> Some (MetricAgg a))
     \<and> (agg \<noteq> [] \<longrightarrow> (\<exists>v. map_of agg ''overall_score'' = Some (Overall v)))"
proof (cases "aggregate_metrics prs ms [] = []")
  case True
  then show ?thesis by (simp add: aggregate_prompt_results_def)
next
  case False
  obtain v where v: "aggregate_scores
      (map (\<lambda>(metric, data). (metric, ag_average_score data)) (aggregate_metrics prs ms [])) None
      = Inr v"
    using aggregate_scores_returns by blast
  show ?thesis
    using False v
    by (simp add: aggregate_prompt_results_def Let_def map_of_dict_set map_of_wrap
        dict_set_not_empty)
qed

lemma collect_scores_succeeded:
  "(\<And>r. r \<in> set prs \<Longrightarrow> pr_success r \<Longrightarrow> m \<in> fst ` set (pr_metrics r)) \<Longrightarrow>
   collect_scores prs m = map (\<lambda>r. score_in r m) (filter pr_success prs)"
proof (induction prs)
  case Nil
  show ?case by (simp add: collect_scores_def)
next
  case (Cons r prs)
  have rest: "collect_scores prs m = map (\<lambda>r. score_in r m) (filter pr_success prs)"
    by (rule Cons.IH) (use Cons.prems in auto)
  have step: "collect_scores (r # prs) m =
      (if pr_success r
       then (case map_of (pr_metrics r) m of None \<Rightarrow> [] | Some d \<Rightarrow> [md_score d])
       else []) @ collect_scores prs m"
    by (simp add: collect_scores_def)
  show ?case
  proof (cases "pr_success r")
    case False
    then show ?thesis by (simp add: step rest)
  next
    case True
    then have "m \<in> fst ` set (pr_metrics r)" using Cons.prems [of r] by simp
    then obtain d where "map_of (pr_metrics r) m = Some d"
      by (metis domD dom_map_of_conv_image_fst)
    with True show ?thesis by (simp add: step rest score_in_def)
  qed
qed

lemma collect_raw_values_succeeded:
  "collect_raw_values prs m = raw_values_in (filter pr_success prs) m"
  by (induction prs) (simp_all add: collect_raw_values_def raw_values_in_def)

lemma fold_min_Min: "fold min ss (s :: real) = Min (set (s # ss))"
  by (simp only: Min.set_eq_fold)

lemma fold_max_Max: "fold max ss (s :: real) = Max (set (s # ss))"
  by (simp only: Max.set_eq_fold)

lemma statistics_fields:
  "ag_count (statistics s ss raw) = length (s # ss)"
  "ag_average_score (statistics s ss raw) = sum_list (s # ss) / real (length (s # ss))"
  "ag_min_score (statistics s ss raw) = Min (set (s # ss))"
  "ag_max_score (statistics s ss raw) = Max (set (s # ss))"
  "ag_average_raw (statistics s ss raw) =
     (if raw = [] then None else Some (sum_list raw / real (length raw)))"
  "ag_min_raw (statistics s ss raw) = (if raw = [] then None else Some (Min (set raw)))"
  "ag_max_raw (statistics s ss raw) = (if raw = [] then None else Some (Max (set raw)))"
  by (simp_all add: statistics_def Let_def fold_min_Min fold_max_Max split: list.splits)

lemma distinct_aggregate_metrics:
  "distinct (map fst acc) \<Longrightarrow> distinct (map fst (aggregate_metrics prs ms acc))"
proof (induction ms arbitrary: acc)
  case Nil
  then show ?case by simp
next
  case (Cons metric rest)
  show ?case
    by (cases "collect_scores prs metric")
       (simp_all add: Let_def Cons.IH Cons.prems distinct_dict_set)
qed

lemma keys_wrap: "map fst (map (\<lambda>(metric, data). (metric, MetricAgg data)) d) = map fst d"
  by (induction d) auto

lemma metric_averages_wrap:
  "metric_averages_of (map (\<lambda>(metric, data). (metric, MetricAgg data)) d)
     = map (\<lambda>(metric, data). (metric, ag_average_score data)) d"
  by (induction d) (auto simp: metric_averages_of_def)

lemma metric_averages_append:
  "metric_averages_of (d @ [(k, Overall v)]) = metric_averages_of d"
  by (simp add: metric_averages_of_def)

lemma aggregate_prompt_results_overall:
  assumes "''overall_score'' \<notin> fst ` set (aggregate_metrics prs ms [])"
  shows "\<exists>agg. aggregate_prompt_results prs ms = Inr agg
     \<and> distinct (map fst agg)
     \<and> (agg = []) = (aggregate_metrics prs ms [] = [])
     \<and> (\<forall>m. m \<noteq> ''overall_score'' \<longrightarrow>
           map_of agg m = map_option MetricAgg (map_of (aggregate_metrics prs ms []) m))
     \<and> map_of agg ''overall_score'' =
          (if agg = [] then None
           else Some (Overall (weighted_sum_of None (metric_averages_of agg)
                                / total_weight_of None (metric_averages_of agg))))"
proof (cases "aggregate_metrics prs ms [] = []")
  case True
  then show ?thesis by (simp add: aggregate_prompt_results_def)
next
  case False
  define per where "per = aggregate_metrics prs ms []"
  define avg where "avg = map (\<lambda>(metric, data). (metric, ag_average_score data)) per"
  define v where "v = weighted_sum_of None avg / total_weight_of None avg"
  define wrapped where "wrapped = map (\<lambda>(metric, data). (metric, MetricAgg data)) per"
  define agg where "agg = wrapped @ [(''overall_score'', Overall v)]"
  have per_ne: "per \<noteq> []" using False by (simp add: per_def)
  have ne: "avg \<noteq> []" using per_ne by (simp add: avg_def)
  have v: "aggregate_scores avg None = Inr v"
    using total_default_weight_positive [OF ne]
    by (simp add: aggregate_scores_unfold [OF ne] py_truediv_def v_def)
  have keys: "map fst wrapped = map fst per"
    unfolding wrapped_def by (rule keys_wrap)
  have fresh: "''overall_score'' \<notin> fst ` set wrapped"
    using assms keys by (metis list.set_map per_def)
  have "aggregate_prompt_results prs ms = Inr (dict_set ''overall_score'' (Overall v) wrapped)"
    using per_ne v
    by (simp add: aggregate_prompt_results_def Let_def per_def [symmetric] avg_def [symmetric]
        wrapped_def [symmetric])
  then have run: "aggregate_prompt_results prs ms = Inr agg"
    by (simp only: dict_set_fresh [OF fresh] agg_def)
  have "distinct (map fst per)"
    unfolding per_def using distinct_aggregate_metrics [of "[]" prs ms] by simp
  moreover have "''overall_score'' \<notin> fst ` set per"
    using assms by (simp add: per_def)
  ultimately have dist: "distinct (map fst agg)"
    using keys by (simp add: agg_def)
  have agg_ne: "agg \<noteq> []" by (simp add: agg_def)
  have lookups: "map_of agg m = map_option MetricAgg (map_of per m)"
    if "m \<noteq> ''overall_score''" for m
    using that
    by (simp add: agg_def wrapped_def map_of_wrap map_add_def split: option.splits)
  have averages: "metric_averages_of agg = avg"
    by (simp only: agg_def wrapped_def metric_averages_append metric_averages_wrap avg_def)
  have "map_of wrapped ''overall_score'' = None"
    using fresh by (simp add: map_of_eq_None_iff)
  then have overall: "map_of agg ''overall_score'' = Some (Overall v)"
    by (simp add: agg_def map_add_def)
  have "aggregate_prompt_results prs ms = Inr agg
     \<and> distinct (map fst agg)
     \<and> (agg = []) = (aggregate_metrics prs ms [] = [])
     \<and> (\<forall>m. m \<noteq> ''overall_score'' \<longrightarrow>
           map_of agg m = map_option MetricAgg (map_of (aggregate_metrics prs ms []) m))
     \<and> map_of agg ''overall_score'' =
          (if agg = [] then None
           else Some (Overall (weighted_sum_of None (metric_averages_of agg)
                                / total_weight_of None (metric_averages_of agg))))"
    using run dist agg_ne False lookups overall
    by (simp add: averages v_def per_def [symmetric])
  then show ?thesis by (rule exI)
qed

lemma count_statistics: "ag_count (statistics s ss raw) = Suc (length ss)"
  by (simp add: statistics_def)

lemma length_filter_via_map:
  "map f xs = map g ys \<Longrightarrow> length (filter f xs) = length (filter g ys)"
proof -
  assume eq: "map f xs = map g ys"
  have "length (filter f xs) = length (filter (\<lambda>b. b) (map f xs))"
    by (simp add: filter_map comp_def)
  also have "\<dots> = length (filter (\<lambda>b. b) (map g ys))"
    by (simp add: eq)
  also have "\<dots> = length (filter g ys)"
    by (simp add: filter_map comp_def)
  finally show ?thesis .
qed

lemma collect_scores_no_entry:
  "(\<And>r. r \<in> set prs \<Longrightarrow> m \<notin> fst ` set (pr_metrics r)) \<Longrightarrow> collect_scores prs m = []"
proof -
  assume a: "\<And>r. r \<in> set prs \<Longrightarrow> m \<notin> fst ` set (pr_metrics r)"
  have "filter (\<lambda>r. pr_success r \<and> m \<in> fst ` set (pr_metrics r)) prs = []"
    using a by (simp add: filter_empty_conv)
  then have "length (collect_scores prs m) = 0"
    by (simp add: length_collect_scores)
  then show ?thesis by simp
qed

text \<open>
  C1, as the code has it. Every prompt gets a prompt result, in the order of the prompts,
  whether its generation succeeded or not. Its metrics mapping holds the requested
  metrics the runner computes (latency, cost, quality, context_utilization), each
  computed from the response record of the prompt, in both cases. A failed evaluation
  is excluded from the aggregation: for each of these requested metrics the count, the
  average, minimum and maximum score and the statistics of the raw values are those of
  the succeeded prompt results alone, and a metric whose count would be 0 has no
  aggregate at all. No other metric has an aggregate, and the overall score is the
  weighted mean, under the default weights, of the average scores so obtained; it is
  absent when no metric has an aggregate.
\<close>

theorem failed_generation_excluded:
  "\<exists>mr agg. run_model_benchmark connector prompts metrics model_id = Inr mr
     \<and> mr_aggregated_metrics mr = Some agg
     \<and> length (mr_prompt_results mr) = length prompts
     \<and> (\<forall>i < length prompts.
           pr_prompt (mr_prompt_results mr ! i) = prompts ! i
         \<and> pr_prompt_index (mr_prompt_results mr ! i) = Some i
         \<and> pr_success (mr_prompt_results mr ! i) = succeeded connector (prompts ! i)
         \<and> pr_response (mr_prompt_results mr ! i)
             = get_or (rd_response (generate_response connector (prompts ! i))) (Some [])
         \<and> pr_error (mr_prompt_results mr ! i)
             = rd_error (generate_response connector (prompts ! i))
         \<and> map fst (pr_metrics (mr_prompt_results mr ! i))
             = filter (\<lambda>k. k \<in> set metrics) known_metrics
         \<and> (''latency'' \<in> set metrics \<longrightarrow>
               map_of (pr_metrics (mr_prompt_results mr ! i)) ''latency'' =
                 Some \<lparr>md_score = calculate_latency_score
                          (get_or (rd_latency (generate_response connector (prompts ! i))) 0),
                       md_raw_value =
                         Some (get_or (rd_latency (generate_response connector (prompts ! i))) 0),
                       md_tokens_used = None, md_prompt_length = None, md_max_context = None\<rparr>)
         \<and> (''cost'' \<in> set metrics \<longrightarrow>
               (\<exists>cost_score.
                  calculate_cost_score
                    (real_of_int (get_or (rd_tokens_used (generate_response connector (prompts ! i))) 0)
                       / 1000 * get_or (mi_cost_per_1k_tokens (get_model_info connector)) 0)
                    (1 / 10) = Inr cost_score
                \<and> map_of (pr_metrics (mr_prompt_results mr ! i)) ''cost'' =
                    Some \<lparr>md_score = cost_score,
                          md_raw_value =
                            Some (real_of_int
                                    (get_or (rd_tokens_used (generate_response connector (prompts ! i))) 0)
                                  / 1000 * get_or (mi_cost_per_1k_tokens (get_model_info connector)) 0),
                          md_tokens_used =
                            Some (get_or (rd_tokens_used (generate_response connector (prompts ! i))) 0),
                          md_prompt_length = None, md_max_context = None\<rparr>))
         \<and> (''quality'' \<in> set metrics \<longrightarrow>
               map_of (pr_metrics (mr_prompt_results mr ! i)) ''quality'' =
                 Some \<lparr>md_score = calculate_quality_score
                          (get_or (rd_response (generate_response connector (prompts ! i))) (Some []))
                          None,
                       md_raw_value = None, md_tokens_used = None, md_prompt_length = None,
                       md_max_context = None\<rparr>)
         \<and> (''context_utilization'' \<in> set metrics \<longrightarrow>
               map_of (pr_metrics (mr_prompt_results mr ! i)) ''context_utilization'' =
                 Some \<lparr>md_score = calculate_context_utilization_score
                          (int (length (py_split (prompts ! i))))
                          (get_or (mi_max_context_length (get_model_info connector)) 4096),
                       md_raw_value = None, md_tokens_used = None,
                       md_prompt_length = Some (int (length (py_split (prompts ! i)))),
                       md_max_context =
                         Some (get_or (mi_max_context_length (get_model_info connector)) 4096)\<rparr>))
     \<and> length (succeeded_results mr) = length (filter (succeeded connector) prompts)
     \<and> (\<forall>m \<in> set metrics \<inter> set known_metrics.
           if succeeded_results mr = [] then map_of agg m = None
           else \<exists>a. map_of agg m = Some (MetricAgg a)
                  \<and> ag_count a = length (succeeded_results mr)
                  \<and> ag_average_score a =
                      (\<Sum>r \<leftarrow> succeeded_results mr. score_in r m)
                      / real (length (succeeded_results mr))
                  \<and> ag_min_score a = Min ((\<lambda>r. score_in r m) ` set (succeeded_results mr))
                  \<and> ag_max_score a = Max ((\<lambda>r. score_in r m) ` set (succeeded_results mr))
                  \<and> ag_average_raw a =
                      (if raw_values_in (succeeded_results mr) m = [] then None
                       else Some (sum_list (raw_values_in (succeeded_results mr) m)
                                  / real (length (raw_values_in (succeeded_results mr) m))))
                  \<and> ag_min_raw a =
                      (if raw_values_in (succeeded_results mr) m = [] then None
                       else Some (Min (set (raw_values_in (succeeded_results mr) m))))
                  \<and> ag_max_raw a =
                      (if raw_values_in (succeeded_results mr) m = [] then None
                       else Some (Max (set (raw_values_in (succeeded_results mr) m)))))
     \<and> (\<forall>m. m \<noteq> ''overall_score'' \<and> m \<notin> set metrics \<inter> set known_metrics \<longrightarrow>
           map_of agg m = None)
     \<and> distinct (map fst agg)
     \<and> (agg = []) = (succeeded_results mr = [] \<or> set metrics \<inter> set known_metrics = {})
     \<and> map_of agg ''overall_score'' =
          (if agg = [] then None
           else Some (Overall (weighted_sum_of None (metric_averages_of agg)
                                / total_weight_of None (metric_averages_of agg))))"
proof -
  define mi where "mi = get_model_info connector"
  obtain prs where prs:
      "evaluate_prompts connector metrics mi 0 prompts = Inr prs"
      "length prs = length prompts"
      "\<forall>j < length prompts.
          \<exists>r. evaluate_single_prompt connector (prompts ! j) metrics mi = Inr r
             \<and> prs ! j = r\<lparr>pr_prompt_index := Some (0 + j)\<rparr>"
    using evaluate_prompts_nth by blast
  define S where "S = filter pr_success prs"
  define requested where "requested = set metrics \<inter> set known_metrics"
  have each: "pr_prompt (prs ! i) = prompts ! i
         \<and> pr_prompt_index (prs ! i) = Some i
         \<and> pr_success (prs ! i) = succeeded connector (prompts ! i)
         \<and> pr_response (prs ! i)
             = get_or (rd_response (generate_response connector (prompts ! i))) (Some [])
         \<and> pr_error (prs ! i) = rd_error (generate_response connector (prompts ! i))
         \<and> map fst (pr_metrics (prs ! i)) = filter (\<lambda>k. k \<in> set metrics) known_metrics
         \<and> (''latency'' \<in> set metrics \<longrightarrow>
               map_of (pr_metrics (prs ! i)) ''latency'' =
                 Some \<lparr>md_score = calculate_latency_score
                          (get_or (rd_latency (generate_response connector (prompts ! i))) 0),
                       md_raw_value =
                         Some (get_or (rd_latency (generate_response connector (prompts ! i))) 0),
                       md_tokens_used = None, md_prompt_length = None, md_max_context = None\<rparr>)
         \<and> (''cost'' \<in> set metrics \<longrightarrow>
               (\<exists>cost_score.
                  calculate_cost_score
                    (real_of_int (get_or (rd_tokens_used (generate_response connector (prompts ! i))) 0)
                       / 1000 * get_or (mi_cost_per_1k_tokens mi) 0)
                    (1 / 10) = Inr cost_score
                \<and> map_of (pr_metrics (prs ! i)) ''cost'' =
                    Some \<lparr>md_score = cost_score,
                          md_raw_value =
                            Some (real_of_int
                                    (get_or (rd_tokens_used (generate_response connector (prompts ! i))) 0)
                                  / 1000 * get_or (mi_cost_per_1k_tokens mi) 0),
                          md_tokens_used =
                            Some (get_or (rd_tokens_used (generate_response connector (prompts ! i))) 0),
                          md_prompt_length = None, md_max_context = None\<rparr>))
         \<and> (''quality'' \<in> set metrics \<longrightarrow>
               map_of (pr_metrics (prs ! i)) ''quality'' =
                 Some \<lparr>md_score = calculate_quality_score
                          (get_or (rd_response (generate_response connector (prompts ! i))) (Some []))
                          None,
                       md_raw_value = None, md_tokens_used = None, md_prompt_length = None,
                       md_max_context = None\<rparr>)
         \<and> (''context_utilization'' \<in> set metrics \<longrightarrow>
               map_of (pr_metrics (prs ! i)) ''context_utilization'' =
                 Some \<lparr>md_score = calculate_context_utilization_score
                          (int (length (py_split (prompts ! i))))
                          (get_or (mi_max_context_length mi) 4096),
                       md_raw_value = None, md_tokens_used = None,
                       md_prompt_length = Some (int (length (py_split (prompts ! i)))),
                       md_max_context = Some (get_or (mi_max_context_length mi) 4096)\<rparr>)"
    if i: "i < length prompts" for i
  proof -
    obtain r where r: "evaluate_single_prompt connector (prompts ! i) metrics mi = Inr r"
        and nth: "prs ! i = r\<lparr>pr_prompt_index := Some i\<rparr>"
      using prs(3) i by auto
    from evaluate_single_prompt_values [of connector "prompts ! i" metrics mi]
    show ?thesis unfolding r nth by simp
  qed
  have keys: "fst ` set (pr_metrics r) = requested" if r: "r \<in> set prs" for r
  proof -
    obtain j where "j < length prs" "r = prs ! j"
      using r by (auto simp: in_set_conv_nth)
    then have "map fst (pr_metrics r) = filter (\<lambda>k. k \<in> set metrics) known_metrics"
      using each [of j] prs(2) by simp
    then have "set (map fst (pr_metrics r)) = set metrics \<inter> set known_metrics"
      by auto
    then show ?thesis by (simp add: requested_def)
  qed
  have flags: "map pr_success prs = map (succeeded connector) prompts"
    by (rule nth_equalityI) (use prs(2) each in auto)
  have count: "length S = length (filter (succeeded connector) prompts)"
    unfolding S_def by (rule length_filter_via_map [OF flags])
  have scores: "collect_scores prs m = map (\<lambda>r. score_in r m) S" if "m \<in> requested" for m
    unfolding S_def by (rule collect_scores_succeeded) (use keys that in simp)
  have no_scores: "collect_scores prs m = []" if "m \<notin> requested" for m
    by (rule collect_scores_no_entry) (use keys that in simp)
  have raws: "collect_raw_values prs m = raw_values_in S m" for m
    unfolding S_def by (rule collect_raw_values_succeeded)
  define per where "per = aggregate_metrics prs metrics []"
  have per_requested: "map_of per m =
      (if S = [] then None
       else Some (statistics (hd (map (\<lambda>r. score_in r m) S)) (tl (map (\<lambda>r. score_in r m) S))
                    (raw_values_in S m)))"
    if "m \<in> requested" for m
  proof -
    have "m \<in> set metrics" using that by (simp add: requested_def)
    then show ?thesis
      by (simp add: per_def map_of_aggregate_metrics scores [OF that] raws)
  qed
  have per_other: "map_of per m = None" if "m \<notin> requested" for m
    by (simp add: per_def map_of_aggregate_metrics no_scores [OF that])
  have not_known: "''overall_score'' \<notin> requested"
    by (simp add: requested_def known_metrics_def)
  have "''overall_score'' \<notin> fst ` set per"
    using per_other [OF not_known] by (simp add: map_of_eq_None_iff)
  then obtain agg where agg:
      "aggregate_prompt_results prs metrics = Inr agg"
      "distinct (map fst agg)"
      "(agg = []) = (per = [])"
      "\<forall>m. m \<noteq> ''overall_score'' \<longrightarrow> map_of agg m = map_option MetricAgg (map_of per m)"
      "map_of agg ''overall_score'' =
          (if agg = [] then None
           else Some (Overall (weighted_sum_of None (metric_averages_of agg)
                                / total_weight_of None (metric_averages_of agg))))"
    unfolding per_def using aggregate_prompt_results_overall [of prs metrics] by blast
  define mr where "mr = \<lparr>mr_model_id = model_id, mr_model_info = mi,
           mr_prompt_results = prs, mr_aggregated_metrics = Some agg\<rparr>"
  have run: "run_model_benchmark connector prompts metrics model_id = Inr mr"
    by (simp add: run_model_benchmark_def mi_def [symmetric] prs(1) agg(1) mr_def)
  have S: "succeeded_results mr = S"
    by (simp add: succeeded_results_def mr_def S_def)
  have results: "mr_prompt_results mr = prs" by (simp add: mr_def)
  have entry: "if S = [] then map_of agg m = None
      else \<exists>a. map_of agg m = Some (MetricAgg a)
         \<and> ag_count a = length S
         \<and> ag_average_score a = (\<Sum>r \<leftarrow> S. score_in r m) / real (length S)
         \<and> ag_min_score a = Min ((\<lambda>r. score_in r m) ` set S)
         \<and> ag_max_score a = Max ((\<lambda>r. score_in r m) ` set S)
         \<and> ag_average_raw a =
             (if raw_values_in S m = [] then None
              else Some (sum_list (raw_values_in S m) / real (length (raw_values_in S m))))
         \<and> ag_min_raw a =
             (if raw_values_in S m = [] then None else Some (Min (set (raw_values_in S m))))
         \<and> ag_max_raw a =
             (if raw_values_in S m = [] then None else Some (Max (set (raw_values_in S m))))"
    if m: "m \<in> requested" for m
  proof (cases "S = []")
    case True
    have "m \<noteq> ''overall_score''" using m not_known by auto
    with agg(4) per_requested [OF m] True show ?thesis by simp
  next
    case False
    define c where "c = map (\<lambda>r. score_in r m) S"
    have c: "hd c # tl c = c" using False by (simp add: c_def)
    have ne: "m \<noteq> ''overall_score''" using m not_known by auto
    have look: "map_of agg m = Some (MetricAgg (statistics (hd c) (tl c) (raw_values_in S m)))"
      using agg(4) ne per_requested [OF m] False by (simp add: c_def)
    have "ag_count (statistics (hd c) (tl c) (raw_values_in S m)) = length S"
      by (simp only: statistics_fields c) (simp add: c_def)
    moreover have "ag_average_score (statistics (hd c) (tl c) (raw_values_in S m))
        = (\<Sum>r \<leftarrow> S. score_in r m) / real (length S)"
      by (simp only: statistics_fields c) (simp add: c_def)
    moreover have "ag_min_score (statistics (hd c) (tl c) (raw_values_in S m))
        = Min ((\<lambda>r. score_in r m) ` set S)"
      by (simp only: statistics_fields c) (simp add: c_def)
    moreover have "ag_max_score (statistics (hd c) (tl c) (raw_values_in S m))
        = Max ((\<lambda>r. score_in r m) ` set S)"
      by (simp only: statistics_fields c) (simp add: c_def)
    ultimately show ?thesis
      using False look by (simp add: statistics_fields(5,6,7))
  qed
  have other: "map_of agg m = None" if "m \<noteq> ''overall_score''" "m \<notin> requested" for m
    using agg(4) that per_other by simp
  have empty: "(agg = []) = (S = [] \<or> requested = {})"
  proof -
    have "(per = []) = (\<forall>m \<in> set metrics. collect_scores prs m = [])"
      by (simp add: per_def aggregate_metrics_empty)
    also have "\<dots> = (\<forall>m \<in> requested. collect_scores prs m = [])"
      using no_scores by (auto simp: requested_def)
    also have "\<dots> = (\<forall>m \<in> requested. S = [])"
      using scores by simp
    also have "\<dots> = (S = [] \<or> requested = {})" by auto
    finally show ?thesis using agg(3) by simp
  qed
  have c1: "run_model_benchmark connector prompts metrics model_id = Inr mr" by (rule run)
  have c2: "mr_aggregated_metrics mr = Some agg" by (simp add: mr_def)
  have c3: "length (mr_prompt_results mr) = length prompts" by (simp add: results prs(2))
  have c4: "(\<forall>i < length prompts.
           pr_prompt (mr_prompt_results mr ! i) = prompts ! i
         \<and> pr_prompt_index (mr_prompt_results mr ! i) = Some i
         \<and> pr_success (mr_prompt_results mr ! i) = succeeded connector (prompts ! i)
         \<and> pr_response (mr_prompt_results mr ! i)
             = get_or (rd_response (generate_response connector (prompts ! i))) (Some [])
         \<and> pr_error (mr_prompt_results mr ! i)
             = rd_error (generate_response connector (prompts ! i))
         \<and> map fst (pr_metrics (mr_prompt_results mr ! i))
             = filter (\<lambda>k. k \<in> set metrics) known_metrics
         \<and> (''latency'' \<in> set metrics \<longrightarrow>
               map_of (pr_metrics (mr_prompt_results mr ! i)) ''latency'' =
                 Some \<lparr>md_score = calculate_latency_score
                          (get_or (rd_latency (generate_response connector (prompts ! i))) 0),
                       md_raw_value =
                         Some (get_or (rd_latency (generate_response connector (prompts ! i))) 0),
                       md_tokens_used = None, md_prompt_length = None, md_max_context = None\<rparr>)
         \<and> (''cost'' \<in> set metrics \<longrightarrow>
               (\<exists>cost_score.
                  calculate_cost_score
                    (real_of_int (get_or (rd_tokens_used (generate_response connector (prompts ! i))) 0)
                       / 1000 * get_or (mi_cost_per_1k_tokens (get_model_info connector)) 0)
                    (1 / 10) = Inr cost_score
                \<and> map_of (pr_metrics (mr_prompt_results mr ! i)) ''cost'' =
                    Some \<lparr>md_score = cost_score,
                          md_raw_value =
                            Some (real_of_int
                                    (get_or (rd_tokens_used (generate_response connector (prompts ! i))) 0)
                                  / 1000 * get_or (mi_cost_per_1k_tokens (get_model_info connector)) 0),
                          md_tokens_used =
                            Some (get_or (rd_tokens_used (generate_response connector (prompts ! i))) 0),
                          md_prompt_length = None, md_max_context = None\<rparr>))
         \<and> (''quality'' \<in> set metrics \<longrightarrow>
               map_of (pr_metrics (mr_prompt_results mr ! i)) ''quality'' =
                 Some \<lparr>md_score = calculate_quality_score
                          (get_or (rd_response (generate_response connector (prompts ! i))) (Some []))
                          None,
                       md_raw_value = None, md_tokens_used = None, md_prompt_length = None,
                       md_max_context = None\<rparr>)
         \<and> (''context_utilization'' \<in> set metrics \<longrightarrow>
               map_of (pr_metrics (mr_prompt_results mr ! i)) ''context_utilization'' =
                 Some \<lparr>md_score = calculate_context_utilization_score
                          (int (length (py_split (prompts ! i))))
                          (get_or (mi_max_context_length (get_model_info connector)) 4096),
                       md_raw_value = None, md_tokens_used = None,
                       md_prompt_length = Some (int (length (py_split (prompts ! i)))),
                       md_max_context =
                         Some (get_or (mi_max_context_length (get_model_info connector)) 4096)\<rparr>))"
    unfolding results mi_def [symmetric] by (intro allI impI) (rule each)
  have c5: "length (succeeded_results mr) = length (filter (succeeded connector) prompts)"
    unfolding S by (rule count)
  have c6: "(\<forall>m \<in> set metrics \<inter> set known_metrics.
           if succeeded_results mr = [] then map_of agg m = None
           else \<exists>a. map_of agg m = Some (MetricAgg a)
                  \<and> ag_count a = length (succeeded_results mr)
                  \<and> ag_average_score a =
                      (\<Sum>r \<leftarrow> succeeded_results mr. score_in r m)
                      / real (length (succeeded_results mr))
                  \<and> ag_min_score a = Min ((\<lambda>r. score_in r m) ` set (succeeded_results mr))
                  \<and> ag_max_score a = Max ((\<lambda>r. score_in r m) ` set (succeeded_results mr))
                  \<and> ag_average_raw a =
                      (if raw_values_in (succeeded_results mr) m = [] then None
                       else Some (sum_list (raw_values_in (succeeded_results mr) m)
                                  / real (length (raw_values_in (succeeded_results mr) m))))
                  \<and> ag_min_raw a =
                      (if raw_values_in (succeeded_results mr) m = [] then None
                       else Some (Min (set (raw_values_in (succeeded_results mr) m))))
                  \<and> ag_max_raw a =
                      (if raw_values_in (succeeded_results mr) m = [] then None
                       else Some (Max (set (raw_values_in (succeeded_results mr) m)))))"
    unfolding S requested_def [symmetric] by (intro ballI) (rule entry)
  have c7: "\<forall>m. m \<noteq> ''overall_score'' \<and> m \<notin> set metrics \<inter> set known_metrics \<longrightarrow>
           map_of agg m = None"
    unfolding requested_def [symmetric] by (intro allI impI, elim conjE) (rule other)
  have c8: "distinct (map fst agg)" by (rule agg(2))
  have c9: "(agg = []) = (succeeded_results mr = [] \<or> set metrics \<inter> set known_metrics = {})"
    unfolding S requested_def [symmetric] by (rule empty)
  show ?thesis
    apply (rule exI [of _ mr])
    apply (rule exI [of _ agg])
    apply (intro conjI)
              apply (rule c1)
             apply (rule c2)
            apply (rule c3)
           apply (rule c4)
          apply (rule c5)
         apply (rule c6)
        apply (rule c7)
       apply (rule c8)
      apply (rule c9)
    apply (rule agg(5))
    done
qed

theorem failed_generation_excluded_witness:
  "(1::nat) < length [''p0'', ''p1'']
   \<and> ''latency'' \<in> set [''latency''] \<inter> set known_metrics
   \<and> filter (succeeded flaky_connector) [''p0'', ''p1''] = [''p0'']
   \<and> (\<exists>mr agg a.
         run_model_benchmark flaky_connector [''p0'', ''p1''] [''latency''] ''flaky'' = Inr mr
         \<and> mr_aggregated_metrics mr = Some agg
         \<and> length (mr_prompt_results mr) = 2
         \<and> pr_prompt (mr_prompt_results mr ! 1) = ''p1''
         \<and> pr_prompt_index (mr_prompt_results mr ! 1) = Some 1
         \<and> pr_success (mr_prompt_results mr ! 1) = False
         \<and> map_of (pr_metrics (mr_prompt_results mr ! 1)) ''latency''
             = Some \<lparr>md_score = 100, md_raw_value = Some (1 / 2), md_tokens_used = None,
                     md_prompt_length = None, md_max_context = None\<rparr>
         \<and> map_of agg ''latency'' = Some (MetricAgg a)
         \<and> ag_count a = 1
         \<and> ag_average_score a = 500 / 9
         \<and> ag_min_score a = 500 / 9
         \<and> ag_max_score a = 500 / 9
         \<and> ag_average_raw a = Some 5
         \<and> map_of agg ''overall_score'' = Some (Overall (500 / 9)))"
proof -
  define p0 where "p0 =
     \<lparr>pr_prompt = ''p0'', pr_response = Some ''Fine answer.'', pr_success = True,
      pr_error = None,
      pr_metrics =
        [(''latency'',
          \<lparr>md_score = 500 / 9, md_raw_value = Some 5, md_tokens_used = None,
           md_prompt_length = None, md_max_context = None\<rparr>)],
      pr_prompt_index = Some 0\<rparr>"
  define p1 where "p1 =
     \<lparr>pr_prompt = ''p1'', pr_response = None, pr_success = False,
      pr_error = Some ''timeout'',
      pr_metrics =
        [(''latency'',
          \<lparr>md_score = 100, md_raw_value = Some (1 / 2), md_tokens_used = None,
           md_prompt_length = None, md_max_context = None\<rparr>)],
      pr_prompt_index = Some 1\<rparr>"
  have flags: "filter (succeeded flaky_connector) [''p0'', ''p1''] = [''p0'']"
    by (simp add: succeeded_def flaky_connector_def failing_connector_def
        good_connector_def get_or_def)
  have known: "''latency'' \<in> set [''latency''] \<inter> set known_metrics"
    by (simp add: known_metrics_def)
  obtain mr agg where run:
      "run_model_benchmark flaky_connector [''p0'', ''p1''] [''latency''] ''flaky'' = Inr mr"
    and agg: "mr_aggregated_metrics mr = Some agg"
    and aggregates: "\<forall>m \<in> set [''latency''] \<inter> set known_metrics.
           if succeeded_results mr = [] then map_of agg m = None
           else \<exists>a. map_of agg m = Some (MetricAgg a)
                  \<and> ag_count a = length (succeeded_results mr)
                  \<and> ag_average_score a =
                      (\<Sum>r \<leftarrow> succeeded_results mr. score_in r m)
                      / real (length (succeeded_results mr))
                  \<and> ag_min_score a = Min ((\<lambda>r. score_in r m) ` set (succeeded_results mr))
                  \<and> ag_max_score a = Max ((\<lambda>r. score_in r m) ` set (succeeded_results mr))
                  \<and> ag_average_raw a =
                      (if raw_values_in (succeeded_results mr) m = [] then None
                       else Some (sum_list (raw_values_in (succeeded_results mr) m)
                                  / real (length (raw_values_in (succeeded_results mr) m))))
                  \<and> ag_min_raw a =
                      (if raw_values_in (succeeded_results mr) m = [] then None
                       else Some (Min (set (raw_values_in (succeeded_results mr) m))))
                  \<and> ag_max_raw a =
                      (if raw_values_in (succeeded_results mr) m = [] then None
                       else Some (Max (set (raw_values_in (succeeded_results mr) m))))"
    and overall: "map_of agg ''overall_score'' =
          (if agg = [] then None
           else Some (Overall (weighted_sum_of None (metric_averages_of agg)
                                / total_weight_of None (metric_averages_of agg))))"
    using failed_generation_excluded
      [of flaky_connector "[''p0'', ''p1'']" "[''latency'']" "''flaky''"]
    by (elim exE conjE) (rule that, assumption+)
  have evaluated:
    "run_model_benchmark flaky_connector [''p0'', ''p1''] [''latency''] ''flaky'' =
       Inr \<lparr>mr_model_id = ''flaky'', mr_model_info = mock_info,
            mr_prompt_results = [p0, p1],
            mr_aggregated_metrics =
              Some [(''latency'',
                     MetricAgg \<lparr>ag_average_score = 500 / 9, ag_min_score = 500 / 9,
                                ag_max_score = 500 / 9, ag_count = 1,
                                ag_average_raw = Some 5, ag_min_raw = Some 5,
                                ag_max_raw = Some 5\<rparr>),
                    (''overall_score'', Overall (500 / 9))]\<rparr>"
    unfolding p0_def p1_def mock_info_def by code_simp
  have results: "mr_prompt_results mr = [p0, p1]"
    using run [unfolded evaluated] by auto
  have succeeded: "succeeded_results mr = [p0]"
    by (simp add: succeeded_results_def results p0_def p1_def)
  have score: "score_in p0 ''latency'' = 500 / 9"
    by (simp add: score_in_def p0_def)
  have raw: "raw_values_in [p0] ''latency'' = [5]"
    by (simp add: raw_values_in_def p0_def)
  obtain a where a: "map_of agg ''latency'' = Some (MetricAgg a)" "ag_count a = 1"
      "ag_average_score a = 500 / 9" "ag_min_score a = 500 / 9" "ag_max_score a = 500 / 9"
      "ag_average_raw a = Some 5"
    using aggregates known by (auto simp: succeeded score raw)
  have averages: "metric_averages_of agg = [(''latency'', 500 / 9)]"
    using run evaluated agg by (auto simp: metric_averages_of_def)
  have "agg \<noteq> []" using a(1) by auto
  then have total: "map_of agg ''overall_score'' = Some (Overall (500 / 9))"
    using overall
    by (simp add: averages weighted_sum_of_def total_weight_of_def weight_of_def
        effective_weights_def default_weights_def dict_get_def)
  have second: "pr_prompt (mr_prompt_results mr ! 1) = ''p1''"
      "pr_prompt_index (mr_prompt_results mr ! 1) = Some 1"
      "pr_success (mr_prompt_results mr ! 1) = False"
      "map_of (pr_metrics (mr_prompt_results mr ! 1)) ''latency''
         = Some \<lparr>md_score = 100, md_raw_value = Some (1 / 2), md_tokens_used = None,
                 md_prompt_length = None, md_max_context = None\<rparr>"
    by (simp_all add: results p1_def)
  have len: "length (mr_prompt_results mr) = 2" by (simp add: results)
  have "\<exists>mr agg a.
         run_model_benchmark flaky_connector [''p0'', ''p1''] [''latency''] ''flaky'' = Inr mr
         \<and> mr_aggregated_metrics mr = Some agg
         \<and> length (mr_prompt_results mr) = 2
         \<and> pr_prompt (mr_prompt_results mr ! 1) = ''p1''
         \<and> pr_prompt_index (mr_prompt_results mr ! 1) = Some 1
         \<and> pr_success (mr_prompt_results mr ! 1) = False
         \<and> map_of (pr_metrics (mr_prompt_results mr ! 1)) ''latency''
             = Some \<lparr>md_score = 100, md_raw_value = Some (1 / 2), md_tokens_used = None,
                     md_prompt_length = None, md_max_context = None\<rparr>
         \<and> map_of agg ''latency'' = Some (MetricAgg a)
         \<and> ag_count a = 1
         \<and> ag_average_score a = 500 / 9
         \<and> ag_min_score a = 500 / 9
         \<and> ag_max_score a = 500 / 9
         \<and> ag_average_raw a = Some 5
         \<and> map_of agg ''overall_score'' = Some (Overall (500 / 9))"
    by (rule exI [of _ mr], rule exI [of _ agg], rule exI [of _ a])
      (simp only: run agg len second a total simp_thms)
  with flags known show ?thesis by (simp only: simp_thms) simp
qed

text \<open>
  The claim as the specification states it fails on the metrics mapping of a failed
  generation: with latency requested, the prompt result of a failed generation holds a
  latency score (100 for the half second the failure took), not an empty mapping.
\<close>

theorem failed_generation_excluded_counterexample:
  "run_model_benchmark failing_connector [''p0''] [''latency''] ''bad'' =
     Inr \<lparr>mr_model_id = ''bad'', mr_model_info = mock_info,
          mr_prompt_results =
            [\<lparr>pr_prompt = ''p0'', pr_response = None, pr_success = False,
              pr_error = Some ''timeout'',
              pr_metrics =
                [(''latency'',
                  \<lparr>md_score = 100, md_raw_value = Some (1 / 2), md_tokens_used = None,
                   md_prompt_length = None, md_max_context = None\<rparr>)],
              pr_prompt_index = Some 0\<rparr>],
          mr_aggregated_metrics = Some []\<rparr>
   \<and> succeeded failing_connector ''p0'' = False
   \<and> pr_metrics (hd (mr_prompt_results (projr
         (run_model_benchmark failing_connector [''p0''] [''latency''] ''bad'')))) \<noteq> []"
  by (simp add: run_model_benchmark_def evaluate_single_prompt_def failing_connector_def
      aggregate_prompt_results_def collect_scores_def collect_raw_values_def Let_def
      get_or_def calculate_latency_score_def succeeded_def)

subsection \<open>The rankings of a summary\<close>

lemma comprehension_total:
  "(\<And>x. x \<in> set xs \<Longrightarrow> f x = Inr (g x)) \<Longrightarrow> comprehension f xs = Inr (map g xs)"
  by (induction xs) simp_all

lemma comprehension_Inr:
  "comprehension f xs = Inr ys \<Longrightarrow> (\<And>x y. x \<in> set xs \<Longrightarrow> f x = Inr y \<Longrightarrow> y = g x)
     \<Longrightarrow> ys = map g xs"
proof (induction xs arbitrary: ys)
  case Nil
  then show ?case by simp
next
  case (Cons x xs)
  from Cons.prems(1) obtain y ys' where y: "f x = Inr y"
      and ys': "comprehension f xs = Inr ys'" and ys: "ys = y # ys'"
    by (auto split: sum.splits)
  have "y = g x" using Cons.prems(2) [of x y] y by simp
  moreover have "ys' = map g xs"
    using Cons.IH [OF ys'] Cons.prems(2) by simp
  ultimately show ?case using ys by simp
qed

lemma get_metric_score_value:
  "get_metric_score scores metric = Inr v \<Longrightarrow> v = metric_score_of scores metric"
  by (auto simp: get_metric_score_def metric_score_of_def split: option.splits agg_value.splits)

lemma get_overall_score_value:
  "get_overall_score scores = Inr v \<Longrightarrow> v = overall_score_of scores"
  by (auto simp: get_overall_score_def overall_score_of_def split: option.splits agg_value.splits)

lemma get_metric_score_total:
  "\<forall>v. map_of scores metric \<noteq> Some (Overall v) \<Longrightarrow>
   get_metric_score scores metric = Inr (metric_score_of scores metric)"
  by (auto simp: get_metric_score_def metric_score_of_def split: option.splits agg_value.splits)

lemma get_overall_score_total:
  "\<forall>a. map_of scores ''overall_score'' \<noteq> Some (MetricAgg a) \<Longrightarrow>
   get_overall_score scores = Inr (overall_score_of scores)"
  by (auto simp: get_overall_score_def overall_score_of_def split: option.splits agg_value.splits)

lemma metric_entries:
  "comprehension
     (\<lambda>(mid, scores). case get_metric_score scores metric of Inl e \<Rightarrow> Inl e | Inr v \<Rightarrow> Inr (mid, v))
     model_scores = Inr entries \<Longrightarrow>
   entries = map (\<lambda>(mid, scores). (mid, metric_score_of scores metric)) model_scores"
  by (erule comprehension_Inr) (auto split: sum.splits dest: get_metric_score_value)

lemma overall_entries:
  "comprehension
     (\<lambda>(mid, scores). case get_overall_score scores of Inl e \<Rightarrow> Inl e | Inr v \<Rightarrow> Inr (mid, v))
     model_scores = Inr entries \<Longrightarrow>
   entries = map (\<lambda>(mid, scores). (mid, overall_score_of scores)) model_scores"
  by (erule comprehension_Inr) (auto split: sum.splits dest: get_overall_score_value)

lemma rank_by_metrics_rankings:
  "rank_by_metrics model_scores metrics s0 = Inr s \<Longrightarrow>
   map_of (sm_rankings s) m =
     (if m \<in> set metrics
      then Some (sorted_descending
                   (map (\<lambda>(mid, scores). (mid, metric_score_of scores m)) model_scores))
      else map_of (sm_rankings s0) m)"
proof (induction metrics arbitrary: s0)
  case Nil
  then show ?case by simp
next
  case (Cons metric rest)
  from Cons.prems obtain entries where
    e: "comprehension
         (\<lambda>(mid, scores). case get_metric_score scores metric of
                             Inl e \<Rightarrow> Inl e | Inr v \<Rightarrow> Inr (mid, v))
         model_scores = Inr entries"
    by (auto split: sum.splits)
  have entries: "entries = map (\<lambda>(mid, scores). (mid, metric_score_of scores metric)) model_scores"
    by (rule metric_entries [OF e])
  show ?case
  proof (cases "sorted_descending entries")
    case Nil
    with Cons.prems e have
      "rank_by_metrics model_scores rest
         (s0\<lparr>sm_rankings := dict_set metric (sorted_descending entries) (sm_rankings s0)\<rparr>) = Inr s"
      by (simp add: Let_def)
    from Cons.IH [OF this] show ?thesis
      by (auto simp: map_of_dict_set entries)
  next
    case (Cons best others)
    with Cons.prems e have
      "rank_by_metrics model_scores rest
         (s0\<lparr>sm_rankings := dict_set metric (sorted_descending entries) (sm_rankings s0),
             sm_best_performers := dict_set metric (fst best) (sm_best_performers s0)\<rparr>) = Inr s"
      by (simp add: Let_def)
    from Cons.IH [OF this] show ?thesis
      by (auto simp: map_of_dict_set entries)
  qed
qed

lemma sorted_descending_Nil: "(sorted_descending entries = []) = (entries = [])"
  by (metis sorted_descending_def length_sort length_0_conv)

lemma rank_by_metrics_best:
  "rank_by_metrics model_scores metrics s0 = Inr s \<Longrightarrow> model_scores \<noteq> [] \<Longrightarrow>
   map_of (sm_best_performers s) m =
     (if m \<in> set metrics
      then Some (fst (hd (sorted_descending
                   (map (\<lambda>(mid, scores). (mid, metric_score_of scores m)) model_scores))))
      else map_of (sm_best_performers s0) m)"
proof (induction metrics arbitrary: s0)
  case Nil
  then show ?case by simp
next
  case (Cons metric rest)
  from Cons.prems obtain entries where
    e: "comprehension
         (\<lambda>(mid, scores). case get_metric_score scores metric of
                             Inl e \<Rightarrow> Inl e | Inr v \<Rightarrow> Inr (mid, v))
         model_scores = Inr entries"
    by (auto split: sum.splits)
  have entries: "entries = map (\<lambda>(mid, scores). (mid, metric_score_of scores metric)) model_scores"
    by (rule metric_entries [OF e])
  with Cons.prems(2) have "sorted_descending entries \<noteq> []"
    by (simp add: sorted_descending_Nil)
  then obtain best others where bo: "sorted_descending entries = best # others"
    by (cases "sorted_descending entries") auto
  with Cons.prems e have
      "rank_by_metrics model_scores rest
         (s0\<lparr>sm_rankings := dict_set metric (sorted_descending entries) (sm_rankings s0),
             sm_best_performers := dict_set metric (fst best) (sm_best_performers s0)\<rparr>) = Inr s"
    by (simp add: Let_def)
  from Cons.IH [OF this Cons.prems(2)] bo show ?case
    by (auto simp: map_of_dict_set entries)
qed

lemma rank_by_metrics_total:
  "(\<And>mid scores m v. (mid, scores) \<in> set model_scores \<Longrightarrow> m \<in> set metrics \<Longrightarrow>
      map_of scores m \<noteq> Some (Overall v)) \<Longrightarrow>
   \<exists>s. rank_by_metrics model_scores metrics s0 = Inr s"
proof (induction metrics arbitrary: s0)
  case Nil
  show ?case by simp
next
  case (Cons metric rest)
  have "comprehension
         (\<lambda>(mid, scores). case get_metric_score scores metric of
                             Inl e \<Rightarrow> Inl e | Inr v \<Rightarrow> Inr (mid, v))
         model_scores
        = Inr (map (\<lambda>(mid, scores). (mid, metric_score_of scores metric)) model_scores)"
    by (rule comprehension_total) (use Cons.prems in \<open>auto simp: get_metric_score_total\<close>)
  moreover have "\<exists>s. rank_by_metrics model_scores rest s1 = Inr s" for s1
    by (rule Cons.IH) (use Cons.prems in auto)
  ultimately show ?case
    by (simp add: Let_def split: list.splits)
qed

subsection \<open>The results of a run\<close>

lemma collect_model_scores_distinct:
  "distinct (map fst results) \<Longrightarrow> fst ` set results \<inter> fst ` set acc = {} \<Longrightarrow>
   (\<And>k md. (k, md) \<in> set results \<Longrightarrow> mr_aggregated_metrics md \<noteq> None) \<Longrightarrow>
   collect_model_scores results acc = acc @ map (\<lambda>(k, md). (k, aggregated_of md)) results"
proof (induction results arbitrary: acc)
  case Nil
  show ?case by simp
next
  case (Cons entry rest)
  obtain k md where entry: "entry = (k, md)" by (cases entry)
  obtain a where a: "mr_aggregated_metrics md = Some a"
    using Cons.prems(3) [of k md] entry by auto
  have fresh: "k \<notin> fst ` set acc"
    using Cons.prems(2) entry by auto
  have step: "dict_set k a acc = acc @ [(k, a)]"
    by (rule dict_set_fresh [OF fresh])
  have "collect_model_scores rest (acc @ [(k, a)])
      = (acc @ [(k, a)]) @ map (\<lambda>(k, md). (k, aggregated_of md)) rest"
  proof (rule Cons.IH)
    show "distinct (map fst rest)" using Cons.prems(1) by simp
    show "fst ` set rest \<inter> fst ` set (acc @ [(k, a)]) = {}"
      using Cons.prems(1,2) entry by auto
    show "\<And>k md. (k, md) \<in> set rest \<Longrightarrow> mr_aggregated_metrics md \<noteq> None"
      using Cons.prems(3) by auto
  qed
  then show ?case
    by (simp add: entry a step aggregated_of_def get_or_def)
qed

lemma produced_by_aggregated:
  assumes "produced_by mm prompts metrics (k, md)"
  shows "\<exists>agg. mr_aggregated_metrics md = Some agg
           \<and> (\<forall>a. map_of agg ''overall_score'' \<noteq> Some (MetricAgg a))
           \<and> (\<forall>m v. m \<noteq> ''overall_score'' \<longrightarrow> map_of agg m \<noteq> Some (Overall v))"
proof -
  from assms obtain c where c: "run_model_benchmark c prompts metrics k = Inr md"
    by (auto simp: produced_by_def split: option.splits)
  obtain prs where prs: "evaluate_prompts c metrics (get_model_info c) 0 prompts = Inr prs"
    using evaluate_prompts_returns by blast
  obtain agg where agg: "aggregate_prompt_results prs metrics = Inr agg"
      "\<forall>m. m \<noteq> ''overall_score'' \<longrightarrow>
           map_of agg m = map_option MetricAgg (map_of (aggregate_metrics prs metrics []) m)"
      "\<forall>a. map_of agg ''overall_score'' \<noteq> Some (MetricAgg a)"
    using aggregate_prompt_results_returns by blast
  have "mr_aggregated_metrics md = Some agg"
    using c by (auto simp: run_model_benchmark_def prs agg(1))
  moreover have "map_of agg m \<noteq> Some (Overall v)" if "m \<noteq> ''overall_score''" for m v
    using agg(2) that by auto
  ultimately show ?thesis using agg(3) by blast
qed

lemma run_model_benchmark_returns:
  "\<exists>mr. run_model_benchmark connector prompts metrics model_id = Inr mr"
proof -
  obtain prs where prs:
    "evaluate_prompts connector metrics (get_model_info connector) 0 prompts = Inr prs"
    using evaluate_prompts_returns by blast
  obtain agg where agg: "aggregate_prompt_results prs metrics = Inr agg"
    using aggregate_prompt_results_returns by blast
  show ?thesis by (simp add: run_model_benchmark_def prs agg)
qed

lemma set_dict_set: "set (dict_set k v d) \<subseteq> insert (k, v) (set d)"
  by (induction d) (auto split: if_splits)

lemma keys_list_dict_set:
  "map fst (dict_set k v d) = (if k \<in> fst ` set d then map fst d else map fst d @ [k])"
  by (induction d) (auto simp: rev_image_eqI)

lemma run_models_returns:
  assumes "\<forall>e \<in> set acc. produced_by mm prompts metrics e" and "distinct (map fst acc)"
  shows "\<exists>res. run_models mm prompts metrics model_ids acc = Inr res
           \<and> map fst res = map fst acc @
               first_occurrences (filter (\<lambda>m. mm m \<noteq> None \<and> m \<notin> fst ` set acc) model_ids)
           \<and> (\<forall>e \<in> set res. produced_by mm prompts metrics e)
           \<and> distinct (map fst res)"
  using assms
proof (induction model_ids arbitrary: acc)
  case Nil
  then show ?case by simp
next
  case (Cons model_id rest)
  show ?case
  proof (cases "mm model_id")
    case None
    with Cons.IH [OF Cons.prems] show ?thesis by simp
  next
    case (Some c)
    obtain md where md: "run_model_benchmark c prompts metrics model_id = Inr md"
      using run_model_benchmark_returns by blast
    let ?acc = "dict_set model_id md acc"
    have p: "produced_by mm prompts metrics (model_id, md)"
      by (simp add: produced_by_def Some md)
    have inv: "\<forall>e \<in> set ?acc. produced_by mm prompts metrics e"
      using Cons.prems(1) p set_dict_set [of model_id md acc] by auto
    have dist: "distinct (map fst ?acc)"
      by (rule distinct_dict_set [OF Cons.prems(2)])
    obtain res where res: "run_models mm prompts metrics rest ?acc = Inr res"
        "map fst res = map fst ?acc @
           first_occurrences (filter (\<lambda>m. mm m \<noteq> None \<and> m \<notin> fst ` set ?acc) rest)"
        "\<forall>e \<in> set res. produced_by mm prompts metrics e" "distinct (map fst res)"
      using Cons.IH [OF inv dist] by blast
    have run: "run_models mm prompts metrics (model_id # rest) acc = Inr res"
      by (simp add: Some md res(1))
    have keys: "map fst res = map fst acc @
        first_occurrences (filter (\<lambda>m. mm m \<noteq> None \<and> m \<notin> fst ` set acc) (model_id # rest))"
    proof (cases "model_id \<in> fst ` set acc")
      case True
      then have "fst ` set ?acc = fst ` set acc"
        by (auto simp: keys_dict_set)
      with True res(2) show ?thesis
        by (simp add: keys_list_dict_set)
    next
      case False
      have "filter (\<lambda>m. mm m \<noteq> None \<and> m \<notin> fst ` set ?acc) rest
          = filter (\<lambda>y. y \<noteq> model_id) (filter (\<lambda>m. mm m \<noteq> None \<and> m \<notin> fst ` set acc) rest)"
        by (auto simp: keys_dict_set intro: filter_cong)
      with False res(2) Some show ?thesis
        by (simp add: keys_list_dict_set)
    qed
    show ?thesis using run keys res(3,4) by blast
  qed
qed

subsection \<open>The summary of the results of a run\<close>

lemma model_scores_of_results:
  assumes "distinct (map fst results)"
    and "\<And>k md. (k, md) \<in> set results \<Longrightarrow> mr_aggregated_metrics md \<noteq> None"
  shows "collect_model_scores results [] = map (\<lambda>(k, md). (k, aggregated_of md)) results"
  using collect_model_scores_distinct [of results "[]"] assms by simp

lemma map_scores_compose:
  "map (\<lambda>(mid, scores). (mid, f scores)) (map (\<lambda>(k, md). (k, aggregated_of md)) results)
     = map (\<lambda>(mid, md). (mid, f (aggregated_of md))) results"
  by (induction results) auto

lemma calculate_summary_empty:
  "calculate_summary [] metrics =
     Inr \<lparr>sm_rankings = [], sm_best_performers = [], sm_metric_averages = []\<rparr>"
  by (simp add: calculate_summary_def)

lemma calculate_summary_rankings:
  assumes "distinct (map fst results)"
    and "\<And>k md. (k, md) \<in> set results \<Longrightarrow> mr_aggregated_metrics md \<noteq> None"
    and "results \<noteq> []"
    and "calculate_summary results metrics = Inr s"
  shows "map_of (sm_rankings s) m =
           (if m \<in> set metrics
            then Some (sorted_descending
                   (map (\<lambda>(mid, md). (mid, metric_score_of (aggregated_of md) m)) results))
            else if m = ''overall''
            then Some (sorted_descending
                   (map (\<lambda>(mid, md). (mid, overall_score_of (aggregated_of md))) results))
            else None)"
    and "map_of (sm_best_performers s) m =
           (if m \<in> set metrics
            then Some (fst (hd (sorted_descending
                   (map (\<lambda>(mid, md). (mid, metric_score_of (aggregated_of md) m)) results))))
            else None)"
proof -
  let ?ms = "map (\<lambda>(k, md). (k, aggregated_of md)) results"
  have ms: "collect_model_scores results [] = ?ms"
    by (rule model_scores_of_results [OF assms(1,2)])
  have ne: "?ms \<noteq> []" using assms(3) by simp
  from assms(4) obtain entries where
    e: "comprehension
          (\<lambda>(model_id, scores). case get_overall_score scores of
                                   Inl e \<Rightarrow> Inl e | Inr v \<Rightarrow> Inr (model_id, v)) ?ms = Inr entries"
    and r: "rank_by_metrics ?ms metrics
          \<lparr>sm_rankings = dict_set ''overall'' (sorted_descending entries) [],
           sm_best_performers = [], sm_metric_averages = []\<rparr> = Inr s"
    using ne by (auto simp: calculate_summary_def ms Let_def split: sum.splits if_splits)
  have entries: "entries = map (\<lambda>(mid, md). (mid, overall_score_of (aggregated_of md))) results"
    using overall_entries [OF e, unfolded map_scores_compose] .
  show "map_of (sm_rankings s) m =
           (if m \<in> set metrics
            then Some (sorted_descending
                   (map (\<lambda>(mid, md). (mid, metric_score_of (aggregated_of md) m)) results))
            else if m = ''overall''
            then Some (sorted_descending
                   (map (\<lambda>(mid, md). (mid, overall_score_of (aggregated_of md))) results))
            else None)"
    using rank_by_metrics_rankings [OF r, of m, unfolded map_scores_compose]
    by (simp add: entries)
  show "map_of (sm_best_performers s) m =
           (if m \<in> set metrics
            then Some (fst (hd (sorted_descending
                   (map (\<lambda>(mid, md). (mid, metric_score_of (aggregated_of md) m)) results))))
            else None)"
    using rank_by_metrics_best [OF r ne, of m, unfolded map_scores_compose] by simp
qed

lemma calculate_summary_total:
  assumes "distinct (map fst results)"
    and "\<forall>e \<in> set results. produced_by mm prompts ms e"
    and "''overall_score'' \<notin> set metrics"
  shows "\<exists>s. calculate_summary results metrics = Inr s"
proof (cases "results = []")
  case True
  then show ?thesis by (simp add: calculate_summary_empty)
next
  case False
  let ?ms = "map (\<lambda>(k, md). (k, aggregated_of md)) results"
  have wf: "(\<forall>a. map_of (aggregated_of md) ''overall_score'' \<noteq> Some (MetricAgg a))
        \<and> (\<forall>m v. m \<noteq> ''overall_score'' \<longrightarrow> map_of (aggregated_of md) m \<noteq> Some (Overall v))
        \<and> mr_aggregated_metrics md \<noteq> None"
    if "(k, md) \<in> set results" for k md
  proof -
    have "produced_by mm prompts ms (k, md)" using assms(2) that by blast
    from produced_by_aggregated [OF this] show ?thesis
      by (auto simp: aggregated_of_def get_or_def)
  qed
  have ms: "collect_model_scores results [] = ?ms"
    by (rule model_scores_of_results [OF assms(1)]) (use wf in blast)
  have overall: "comprehension
          (\<lambda>(model_id, scores). case get_overall_score scores of
                                   Inl e \<Rightarrow> Inl e | Inr v \<Rightarrow> Inr (model_id, v)) ?ms
        = Inr (map (\<lambda>(model_id, scores). (model_id, overall_score_of scores)) ?ms)"
    by (rule comprehension_total) (use wf in \<open>auto simp: get_overall_score_total\<close>)
  have "\<exists>s. rank_by_metrics ?ms metrics s1 = Inr s" for s1
  proof (rule rank_by_metrics_total)
    fix mid scores m v
    assume a: "(mid, scores) \<in> set ?ms" "m \<in> set metrics"
    then obtain md where md: "(mid, md) \<in> set results" "scores = aggregated_of md"
      by auto
    have "m \<noteq> ''overall_score''" using a(2) assms(3) by auto
    then show "map_of scores m \<noteq> Some (Overall v)"
      using wf [OF md(1)] md(2) by blast
  qed
  then show ?thesis
    using False by (simp add: calculate_summary_def ms overall Let_def)
qed

subsection \<open>Sorting, and a whole run\<close>

lemma sorted_descending_sorted: "sorted_wrt (\<lambda>a b. snd b \<le> snd a) (sorted_descending entries)"
proof -
  have "sorted (map (\<lambda>entry. - snd entry) (sorted_descending entries))"
    by (simp add: sorted_descending_def)
  then show ?thesis by (simp add: sorted_map)
qed

lemma set_sorted_descending: "set (sorted_descending entries) = set entries"
  by (simp add: sorted_descending_def)

lemma length_sorted_descending: "length (sorted_descending entries) = length entries"
  by (simp add: sorted_descending_def)

lemma sorted_descending_stable:
  "filter (\<lambda>e. snd e = v) (sorted_descending entries) = filter (\<lambda>e. snd e = v) entries"
proof -
  have "filter (\<lambda>e. - snd e = - v) (sort_key (\<lambda>entry. - snd entry) entries)
      = filter (\<lambda>e. - snd e = - v) entries"
    by (rule sort_key_stable)
  then show ?thesis by (simp add: sorted_descending_def)
qed

lemma sorted_descending_ties:
  assumes "distinct (map fst entries)"
  shows "map fst (filter (\<lambda>e. snd e = v) (sorted_descending entries))
           = filter (\<lambda>k. (k, v) \<in> set (sorted_descending entries)) (map fst entries)"
proof -
  have "((fst e, v) \<in> set entries) = (snd e = v)" if "e \<in> set entries" for e
  proof
    assume a: "(fst e, v) \<in> set entries"
    have b: "(fst e, snd e) \<in> set entries" using that by simp
    show "snd e = v"
      by (rule eq_key_imp_eq_value [OF assms b a])
  next
    assume "snd e = v"
    then show "(fst e, v) \<in> set entries" using that by auto
  qed
  then have "filter (\<lambda>e. snd e = v) entries = filter ((\<lambda>k. (k, v) \<in> set entries) \<circ> fst) entries"
    by (intro filter_cong) auto
  then show ?thesis
    by (simp add: sorted_descending_stable set_sorted_descending filter_map)
qed

lemma run_models_skips_unresolved:
  "run_models mm prompts metrics (filter (\<lambda>m. mm m \<noteq> None) model_ids) acc
     = run_models mm prompts metrics model_ids acc"
proof (induction model_ids arbitrary: acc)
  case Nil
  show ?case by simp
next
  case (Cons model_id rest)
  show ?case
    using Cons.IH by (cases "mm model_id") (simp_all split: sum.splits)
qed

lemma run_benchmark_unfold:
  "\<exists>res. run_models mm prompts (requested_metrics metrics) model_ids [] = Inr res
     \<and> map fst res = first_occurrences (filter (\<lambda>m. mm m \<noteq> None) model_ids)
     \<and> (\<forall>e \<in> set res. produced_by mm prompts (requested_metrics metrics) e)
     \<and> distinct (map fst res)
     \<and> run_benchmark mm store bid now prompts model_ids metrics =
         (case calculate_summary res (requested_metrics metrics) of
            Inl e \<Rightarrow> Inl e
          | Inr s \<Rightarrow>
              Inr (\<lparr>br_id = bid, br_timestamp = now, br_prompts = prompts,
                    br_model_ids = model_ids, br_metrics = requested_metrics metrics,
                    br_results = res, br_summary = s\<rparr>,
                   dict_set bid
                     \<lparr>br_id = bid, br_timestamp = now, br_prompts = prompts,
                      br_model_ids = model_ids, br_metrics = requested_metrics metrics,
                      br_results = res, br_summary = s\<rparr> store))"
proof -
  obtain res where res:
      "run_models mm prompts (requested_metrics metrics) model_ids [] = Inr res"
      "map fst res = map fst [] @ first_occurrences
          (filter (\<lambda>m. mm m \<noteq> None \<and> m \<notin> fst ` set []) model_ids)"
      "\<forall>e \<in> set res. produced_by mm prompts (requested_metrics metrics) e"
      "distinct (map fst res)"
    using run_models_returns [of "[]" mm prompts "requested_metrics metrics" model_ids]
    by auto
  have "run_benchmark mm store bid now prompts model_ids metrics =
         (case calculate_summary res (requested_metrics metrics) of
            Inl e \<Rightarrow> Inl e
          | Inr s \<Rightarrow>
              Inr (\<lparr>br_id = bid, br_timestamp = now, br_prompts = prompts,
                    br_model_ids = model_ids, br_metrics = requested_metrics metrics,
                    br_results = res, br_summary = s\<rparr>,
                   dict_set bid
                     \<lparr>br_id = bid, br_timestamp = now, br_prompts = prompts,
                      br_model_ids = model_ids, br_metrics = requested_metrics metrics,
                      br_results = res, br_summary = s\<rparr> store))"
    unfolding run_benchmark_def requested_metrics_def [symmetric] Let_def res(1)
    by simp
  with res show ?thesis by simp
qed

lemma run_benchmark_Inr:
  assumes "run_benchmark mm store bid now prompts model_ids metrics = Inr (run, store')"
  shows "map fst (br_results run) = first_occurrences (filter (\<lambda>m. mm m \<noteq> None) model_ids)"
    and "\<forall>e \<in> set (br_results run). produced_by mm prompts (requested_metrics metrics) e"
    and "distinct (map fst (br_results run))"
    and "calculate_summary (br_results run) (requested_metrics metrics) = Inr (br_summary run)"
    and "br_metrics run = requested_metrics metrics"
    and "run_models mm prompts (requested_metrics metrics) model_ids [] = Inr (br_results run)"
    and "store' = dict_set bid run store"
    and "br_id run = bid \<and> br_timestamp run = now \<and> br_prompts run = prompts
           \<and> br_model_ids run = model_ids"
proof -
  obtain res where res:
      "run_models mm prompts (requested_metrics metrics) model_ids [] = Inr res"
      "map fst res = first_occurrences (filter (\<lambda>m. mm m \<noteq> None) model_ids)"
      "\<forall>e \<in> set res. produced_by mm prompts (requested_metrics metrics) e"
      "distinct (map fst res)"
      "run_benchmark mm store bid now prompts model_ids metrics =
         (case calculate_summary res (requested_metrics metrics) of
            Inl e \<Rightarrow> Inl e
          | Inr s \<Rightarrow>
              Inr (\<lparr>br_id = bid, br_timestamp = now, br_prompts = prompts,
                    br_model_ids = model_ids, br_metrics = requested_metrics metrics,
                    br_results = res, br_summary = s\<rparr>,
                   dict_set bid
                     \<lparr>br_id = bid, br_timestamp = now, br_prompts = prompts,
                      br_model_ids = model_ids, br_metrics = requested_metrics metrics,
                      br_results = res, br_summary = s\<rparr> store))"
    using run_benchmark_unfold [of mm prompts metrics model_ids store bid now] by blast
  obtain s where s: "calculate_summary res (requested_metrics metrics) = Inr s"
      and run: "run = \<lparr>br_id = bid, br_timestamp = now, br_prompts = prompts,
                    br_model_ids = model_ids, br_metrics = requested_metrics metrics,
                    br_results = res, br_summary = s\<rparr>"
      and st: "store' = dict_set bid run store"
  proof (cases "calculate_summary res (requested_metrics metrics)")
    case (Inl e)
    with res(5) assms show ?thesis by simp
  next
    case (Inr s)
    with res(5) assms have
      "(\<lparr>br_id = bid, br_timestamp = now, br_prompts = prompts,
         br_model_ids = model_ids, br_metrics = requested_metrics metrics,
         br_results = res, br_summary = s\<rparr>,
        dict_set bid
          \<lparr>br_id = bid, br_timestamp = now, br_prompts = prompts,
           br_model_ids = model_ids, br_metrics = requested_metrics metrics,
           br_results = res, br_summary = s\<rparr> store) = (run, store')"
      by simp
    then have "run = \<lparr>br_id = bid, br_timestamp = now, br_prompts = prompts,
                    br_model_ids = model_ids, br_metrics = requested_metrics metrics,
                    br_results = res, br_summary = s\<rparr>"
        and "store' = dict_set bid run store"
      by blast+
    with Inr that show ?thesis by blast
  qed
  show "map fst (br_results run) = first_occurrences (filter (\<lambda>m. mm m \<noteq> None) model_ids)"
    using res(2) run by simp
  show "\<forall>e \<in> set (br_results run). produced_by mm prompts (requested_metrics metrics) e"
    using res(3) run by simp
  show "distinct (map fst (br_results run))" using res(4) run by simp
  show "calculate_summary (br_results run) (requested_metrics metrics) = Inr (br_summary run)"
    using s run by simp
  show "br_metrics run = requested_metrics metrics" using run by simp
  show "run_models mm prompts (requested_metrics metrics) model_ids [] = Inr (br_results run)"
    using res(1) run by simp
  show "store' = dict_set bid run store" by (rule st)
  show "br_id run = bid \<and> br_timestamp run = now \<and> br_prompts run = prompts
           \<and> br_model_ids run = model_ids"
    using run by simp
qed

lemma run_benchmark_total:
  assumes "''overall_score'' \<notin> set (requested_metrics metrics)"
  shows "\<exists>run store'. run_benchmark mm store bid now prompts model_ids metrics = Inr (run, store')"
proof -
  obtain res where res:
      "\<forall>e \<in> set res. produced_by mm prompts (requested_metrics metrics) e"
      "distinct (map fst res)"
      "run_benchmark mm store bid now prompts model_ids metrics =
         (case calculate_summary res (requested_metrics metrics) of
            Inl e \<Rightarrow> Inl e
          | Inr s \<Rightarrow>
              Inr (\<lparr>br_id = bid, br_timestamp = now, br_prompts = prompts,
                    br_model_ids = model_ids, br_metrics = requested_metrics metrics,
                    br_results = res, br_summary = s\<rparr>,
                   dict_set bid
                     \<lparr>br_id = bid, br_timestamp = now, br_prompts = prompts,
                      br_model_ids = model_ids, br_metrics = requested_metrics metrics,
                      br_results = res, br_summary = s\<rparr> store))"
    using run_benchmark_unfold [of mm prompts metrics model_ids store bid now] by blast
  obtain s where "calculate_summary res (requested_metrics metrics) = Inr s"
    using calculate_summary_total [OF res(2) res(1) assms] by blast
  with res(3) show ?thesis by simp
qed

lemma results_aggregated:
  assumes "run_benchmark mm store bid now prompts model_ids metrics = Inr (run, store')"
    and "(k, md) \<in> set (br_results run)"
  shows "mr_aggregated_metrics md \<noteq> None"
proof -
  have "produced_by mm prompts (requested_metrics metrics) (k, md)"
    using run_benchmark_Inr(2) [OF assms(1)] assms(2) by blast
  from produced_by_aggregated [OF this] show ?thesis by auto
qed

lemma distinct_keys_sorted_descending:
  "distinct (map fst (sorted_descending entries)) = distinct (map fst entries)"
  by (simp add: distinct_map sorted_descending_def)

lemma keys_of_entries: "map fst (map (\<lambda>(mid, md). (mid, f md)) results) = map fst results"
  by (induction results) auto

lemma default_metrics_plain: "''overall_score'' \<notin> set (requested_metrics None)"
  by (simp add: requested_metrics_def)

lemma mock_run_returns:
  "mock_run prompts model_ids = Inr (fst (projr (mock_run prompts model_ids)),
                                     snd (projr (mock_run prompts model_ids)))"
proof -
  obtain run store' where "mock_run prompts model_ids = Inr (run, store')"
    unfolding mock_run_def using run_benchmark_total [OF default_metrics_plain] by blast
  then show ?thesis by simp
qed

lemma ranking_models:
  assumes "run_benchmark mm store bid now prompts model_ids metrics = Inr (run, store')"
    and "map_of (sm_rankings (br_summary run)) k = Some r"
  shows "br_results run \<noteq> []"
    and "\<exists>f. r = sorted_descending (map (\<lambda>(mid, md). (mid, f md)) (br_results run))"
proof -
  note run = run_benchmark_Inr [OF assms(1)]
  have agg: "\<And>k md. (k, md) \<in> set (br_results run) \<Longrightarrow> mr_aggregated_metrics md \<noteq> None"
    by (rule results_aggregated [OF assms(1)])
  show ne: "br_results run \<noteq> []"
  proof
    assume "br_results run = []"
    then have "br_summary run = \<lparr>sm_rankings = [], sm_best_performers = [], sm_metric_averages = []\<rparr>"
      using run(4) by (simp add: calculate_summary_empty)
    with assms(2) show False by simp
  qed
  have "map_of (sm_rankings (br_summary run)) k =
           (if k \<in> set (requested_metrics metrics)
            then Some (sorted_descending
                   (map (\<lambda>(mid, md). (mid, metric_score_of (aggregated_of md) k)) (br_results run)))
            else if k = ''overall''
            then Some (sorted_descending
                   (map (\<lambda>(mid, md). (mid, overall_score_of (aggregated_of md))) (br_results run)))
            else None)"
    by (rule calculate_summary_rankings(1) [OF run(3) _ ne run(4)]) (rule agg)
  with assms(2) have
    "r = sorted_descending
           (map (\<lambda>(mid, md). (mid, metric_score_of (aggregated_of md) k)) (br_results run))
     \<or> r = sorted_descending
           (map (\<lambda>(mid, md). (mid, overall_score_of (aggregated_of md))) (br_results run))"
    by (simp split: if_splits)
  then show "\<exists>f. r = sorted_descending (map (\<lambda>(mid, md). (mid, f md)) (br_results run))"
  proof
    assume "r = sorted_descending
           (map (\<lambda>(mid, md). (mid, metric_score_of (aggregated_of md) k)) (br_results run))"
    then show ?thesis
      by (intro exI [where x = "\<lambda>md. metric_score_of (aggregated_of md) k"])
  next
    assume "r = sorted_descending
           (map (\<lambda>(mid, md). (mid, overall_score_of (aggregated_of md))) (br_results run))"
    then show ?thesis
      by (intro exI [where x = "\<lambda>md. overall_score_of (aggregated_of md)"])
  qed
qed

lemma produced_by_no_prompts:
  assumes "produced_by mm [] metrics (k, md)"
  shows "mr_prompt_results md = [] \<and> mr_aggregated_metrics md = Some []"
proof -
  from assms obtain c where c: "run_model_benchmark c [] metrics k = Inr md"
    by (auto simp: produced_by_def split: option.splits)
  have "aggregate_metrics [] metrics [] = []"
    by (simp add: aggregate_metrics_empty collect_scores_def)
  then have "aggregate_prompt_results [] metrics = Inr []"
    by (simp add: aggregate_prompt_results_def)
  with c show ?thesis
    by (auto simp: run_model_benchmark_def)
qed

text \<open>
  A run whose metrics name \<open>overall_score\<close> raises as soon as a model has an overall
  score: \<^verbatim>\<open>_calculate_summary\<close> looks the metric up in the aggregated metrics and
  finds the float stored under that key.
\<close>

lemma run_benchmark_overall_score_metric:
  "run_benchmark mock_manager [] ''run-1'' 0 [''p0''] [''good'']
     (Some [''latency'', ''overall_score'']) = Inl AttributeError"
  by code_simp

subsection \<open>Rankings, determinism and totality of a run\<close>

text \<open>
  C3. In the summary of a run, the ranking of a requested metric has exactly one entry
  for every model present in results, in descending order of score; the score of a
  model is the average score of its aggregate for the metric, and exactly 0 when it has
  no aggregate for it. The best performer of the metric is the model of the first entry.
  A run without results has neither the ranking nor the best performer.
\<close>

theorem requested_metric_rankings:
  assumes "run_benchmark mm store bid now prompts model_ids metrics = Inr (run, store')"
    and "m \<in> set (br_metrics run)"
  shows "(br_results run \<noteq> [] \<longrightarrow>
           (\<exists>r. map_of (sm_rankings (br_summary run)) m = Some r
              \<and> r = sorted_descending
                      (map (\<lambda>(mid, md). (mid, metric_score_of (aggregated_of md) m))
                         (br_results run))
              \<and> length r = length (br_results run)
              \<and> fst ` set r = fst ` set (br_results run)
              \<and> distinct (map fst r)
              \<and> sorted_wrt (\<lambda>a b. snd b \<le> snd a) r
              \<and> (\<forall>(mid, md) \<in> set (br_results run).
                    (mid, metric_score_of (aggregated_of md) m) \<in> set r)
              \<and> (\<forall>(mid, md) \<in> set (br_results run).
                    map_of (aggregated_of md) m = None \<longrightarrow> (mid, 0) \<in> set r)
              \<and> r \<noteq> []
              \<and> map_of (sm_best_performers (br_summary run)) m = Some (fst (hd r))))
       \<and> (br_results run = [] \<longrightarrow>
             map_of (sm_rankings (br_summary run)) m = None
           \<and> map_of (sm_best_performers (br_summary run)) m = None)"
proof (cases "br_results run = []")
  case True
  have "calculate_summary [] (requested_metrics metrics) = Inr (br_summary run)"
    using run_benchmark_Inr(4) [OF assms(1)] True by simp
  then have "br_summary run = \<lparr>sm_rankings = [], sm_best_performers = [], sm_metric_averages = []\<rparr>"
    by (simp add: calculate_summary_empty)
  with True show ?thesis by simp
next
  case False
  let ?E = "map (\<lambda>(mid, md). (mid, metric_score_of (aggregated_of md) m)) (br_results run)"
  let ?r = "sorted_descending ?E"
  note run = run_benchmark_Inr [OF assms(1)]
  have agg: "\<And>k md. (k, md) \<in> set (br_results run) \<Longrightarrow> mr_aggregated_metrics md \<noteq> None"
    by (rule results_aggregated [OF assms(1)])
  have m: "m \<in> set (requested_metrics metrics)"
    using assms(2) run(5) by simp
  have rank: "map_of (sm_rankings (br_summary run)) m = Some ?r"
    using calculate_summary_rankings(1) [OF run(3) agg False run(4), where m = m] m by simp
  have best: "map_of (sm_best_performers (br_summary run)) m = Some (fst (hd ?r))"
    using calculate_summary_rankings(2) [OF run(3) agg False run(4), where m = m] m by simp
  have len: "length ?r = length (br_results run)"
    by (simp add: length_sorted_descending)
  have keys: "fst ` set ?r = fst ` set (br_results run)"
    using keys_of_entries [of "\<lambda>md. metric_score_of (aggregated_of md) m" "br_results run"]
    by (metis list.set_map set_sorted_descending)
  have dist: "distinct (map fst ?r)"
    unfolding distinct_keys_sorted_descending keys_of_entries by (rule run(3))
  have sorted: "sorted_wrt (\<lambda>a b. snd b \<le> snd a) ?r"
    by (rule sorted_descending_sorted)
  have every: "\<forall>(mid, md) \<in> set (br_results run).
      (mid, metric_score_of (aggregated_of md) m) \<in> set ?r"
    by (auto simp: set_sorted_descending intro: rev_image_eqI)
  have zero: "\<forall>(mid, md) \<in> set (br_results run).
      map_of (aggregated_of md) m = None \<longrightarrow> (mid, 0) \<in> set ?r"
  proof (clarify)
    fix mid md
    assume in_results: "(mid, md) \<in> set (br_results run)"
      and none: "map_of (aggregated_of md) m = None"
    have "metric_score_of (aggregated_of md) m = 0"
      by (simp add: metric_score_of_def none)
    with every in_results show "(mid, 0) \<in> set ?r" by fastforce
  qed
  have ne: "?r \<noteq> []"
    using False by (simp add: sorted_descending_Nil)
  show ?thesis
    using False rank len keys dist sorted every zero ne best by blast
qed

theorem requested_metric_rankings_witness:
  "mock_run [''p0'', ''p1''] [''good'', ''bad'']
     = Inr (fst (projr (mock_run [''p0'', ''p1''] [''good'', ''bad''])),
            snd (projr (mock_run [''p0'', ''p1''] [''good'', ''bad''])))
   \<and> ''latency'' \<in> set (br_metrics (fst (projr (mock_run [''p0'', ''p1''] [''good'', ''bad'']))))
   \<and> br_results (fst (projr (mock_run [''p0'', ''p1''] [''good'', ''bad'']))) \<noteq> []
   \<and> map_of (sm_rankings (br_summary (fst (projr (mock_run [''p0'', ''p1''] [''good'', ''bad'']))))) ''latency''
       = Some [(''good'', 500 / 9), (''bad'', 0)]
   \<and> map_of (sm_best_performers (br_summary (fst (projr (mock_run [''p0'', ''p1''] [''good'', ''bad'']))))) ''latency''
       = Some ''good''"
proof -
  let ?run = "fst (projr (mock_run [''p0'', ''p1''] [''good'', ''bad'']))"
  have eq: "run_benchmark mock_manager [] ''run-1'' 0 [''p0'', ''p1''] [''good'', ''bad''] None
      = Inr (?run, snd (projr (mock_run [''p0'', ''p1''] [''good'', ''bad''])))"
    using mock_run_returns [of "[''p0'', ''p1'']" "[''good'', ''bad'']"]
    by (simp add: mock_run_def)
  have mem: "''latency'' \<in> set (br_metrics ?run)" by code_simp
  have ne: "br_results ?run \<noteq> []" by code_simp
  have ranking: "sorted_descending
      (map (\<lambda>(mid, md). (mid, metric_score_of (aggregated_of md) ''latency'')) (br_results ?run))
      = [(''good'', 500 / 9), (''bad'', 0)]"
    by code_simp
  from requested_metric_rankings [OF eq mem] ne ranking
  have "map_of (sm_rankings (br_summary ?run)) ''latency'' = Some [(''good'', 500 / 9), (''bad'', 0)]"
    and "map_of (sm_best_performers (br_summary ?run)) ''latency'' = Some ''good''"
    by auto
  with mock_run_returns mem ne show ?thesis by blast
qed

text \<open>
  C2, as the code has it. The overall ranking of a run has exactly one entry for every
  model present in results, with or without aggregated metrics; a model whose
  aggregated metrics are empty is listed with score 0. Unless a metric named
  \<open>overall\<close> was requested, the entries are sorted by overall score. A run without
  results has no overall ranking.
\<close>

theorem overall_ranking_lists_every_model:
  assumes "run_benchmark mm store bid now prompts model_ids metrics = Inr (run, store')"
  shows "(br_results run \<noteq> [] \<longrightarrow>
           (\<exists>r. map_of (sm_rankings (br_summary run)) ''overall'' = Some r
              \<and> length r = length (br_results run)
              \<and> fst ` set r = fst ` set (br_results run)
              \<and> distinct (map fst r)
              \<and> (\<forall>(mid, md) \<in> set (br_results run). aggregated_of md = [] \<longrightarrow> (mid, 0) \<in> set r)
              \<and> (''overall'' \<notin> set (br_metrics run) \<longrightarrow>
                    r = sorted_descending
                          (map (\<lambda>(mid, md). (mid, overall_score_of (aggregated_of md)))
                             (br_results run)))))
       \<and> (br_results run = [] \<longrightarrow> map_of (sm_rankings (br_summary run)) ''overall'' = None)"
proof (cases "br_results run = []")
  case True
  have "calculate_summary [] (requested_metrics metrics) = Inr (br_summary run)"
    using run_benchmark_Inr(4) [OF assms] True by simp
  then have "br_summary run = \<lparr>sm_rankings = [], sm_best_performers = [], sm_metric_averages = []\<rparr>"
    by (simp add: calculate_summary_empty)
  with True show ?thesis by simp
next
  case False
  note run = run_benchmark_Inr [OF assms]
  have agg: "\<And>k md. (k, md) \<in> set (br_results run) \<Longrightarrow> mr_aggregated_metrics md \<noteq> None"
    by (rule results_aggregated [OF assms])
  define f where "f = (\<lambda>md. if ''overall'' \<in> set (requested_metrics metrics)
                            then metric_score_of (aggregated_of md) ''overall''
                            else overall_score_of (aggregated_of md))"
  let ?E = "map (\<lambda>(mid, md). (mid, f md)) (br_results run)"
  let ?r = "sorted_descending ?E"
  have rank: "map_of (sm_rankings (br_summary run)) ''overall'' = Some ?r"
    using calculate_summary_rankings(1) [OF run(3) agg False run(4), where m = "''overall''"]
    by (simp add: f_def)
  have len: "length ?r = length (br_results run)"
    by (simp add: length_sorted_descending)
  have keys: "fst ` set ?r = fst ` set (br_results run)"
    using keys_of_entries [of f "br_results run"]
    by (metis list.set_map set_sorted_descending)
  have dist: "distinct (map fst ?r)"
    unfolding distinct_keys_sorted_descending keys_of_entries by (rule run(3))
  have zero: "\<forall>(mid, md) \<in> set (br_results run). aggregated_of md = [] \<longrightarrow> (mid, 0) \<in> set ?r"
  proof (clarify)
    fix mid md
    assume in_results: "(mid, md) \<in> set (br_results run)" and empty: "aggregated_of md = []"
    have "f md = 0"
      by (simp add: f_def metric_score_of_def overall_score_of_def empty)
    moreover have "(mid, f md) \<in> set ?E"
      using in_results by (auto intro: rev_image_eqI)
    ultimately show "(mid, 0) \<in> set ?r"
      by (simp add: set_sorted_descending)
  qed
  have by_overall: "?r = sorted_descending
      (map (\<lambda>(mid, md). (mid, overall_score_of (aggregated_of md))) (br_results run))"
    if "''overall'' \<notin> set (br_metrics run)"
    using that run(5) by (simp add: f_def)
  show ?thesis
    using False rank len keys dist zero by_overall by blast
qed

theorem overall_ranking_lists_every_model_witness:
  "mock_run [''p0'', ''p1''] [''good'', ''bad'']
     = Inr (fst (projr (mock_run [''p0'', ''p1''] [''good'', ''bad''])),
            snd (projr (mock_run [''p0'', ''p1''] [''good'', ''bad''])))
   \<and> br_results (fst (projr (mock_run [''p0'', ''p1''] [''good'', ''bad'']))) \<noteq> []
   \<and> ''overall'' \<notin> set (br_metrics (fst (projr (mock_run [''p0'', ''p1''] [''good'', ''bad'']))))
   \<and> map_of (sm_rankings (br_summary (fst (projr (mock_run [''p0'', ''p1''] [''good'', ''bad''])))))
         ''overall''
       = Some [(''good'', 1934 / 27), (''bad'', 0)]"
proof -
  let ?run = "fst (projr (mock_run [''p0'', ''p1''] [''good'', ''bad'']))"
  have eq: "run_benchmark mock_manager [] ''run-1'' 0 [''p0'', ''p1''] [''good'', ''bad''] None
      = Inr (?run, snd (projr (mock_run [''p0'', ''p1''] [''good'', ''bad''])))"
    using mock_run_returns [of "[''p0'', ''p1'']" "[''good'', ''bad'']"]
    by (simp add: mock_run_def)
  have ne: "br_results ?run \<noteq> []" by code_simp
  have plain: "''overall'' \<notin> set (br_metrics ?run)" by code_simp
  have ranking: "sorted_descending
      (map (\<lambda>(mid, md). (mid, overall_score_of (aggregated_of md))) (br_results ?run))
      = [(''good'', 1934 / 27), (''bad'', 0)]"
    by code_simp
  from overall_ranking_lists_every_model [OF eq] ne plain ranking
  have "map_of (sm_rankings (br_summary ?run)) ''overall''
      = Some [(''good'', 1934 / 27), (''bad'', 0)]"
    by auto
  with mock_run_returns ne plain show ?thesis by blast
qed

text \<open>
  The claim as the specification states it fails on a run of two models of which one
  fails every generation: the failing model has no aggregated metric, and the overall
  ranking has two entries, the failing model with score 0.
\<close>

theorem overall_ranking_lists_every_model_counterexample:
  "map (\<lambda>(mid, md). (mid, length (aggregated_of md)))
       (br_results (fst (projr (mock_run [''p0'', ''p1''] [''good'', ''bad''])))) 
     = [(''good'', 4), (''bad'', 0)]
   \<and> map_of (sm_rankings (br_summary (fst (projr (mock_run [''p0'', ''p1''] [''good'', ''bad''])))))
         ''overall''
       = Some [(''good'', 1934 / 27), (''bad'', 0)]
   \<and> map_option length
         (map_of (sm_rankings (br_summary (fst (projr (mock_run [''p0'', ''p1''] [''good'', ''bad''])))))
            ''overall'')
       \<noteq> Some 1"
proof -
  let ?run = "fst (projr (mock_run [''p0'', ''p1''] [''good'', ''bad'']))"
  have a: "map (\<lambda>(mid, md). (mid, length (aggregated_of md))) (br_results ?run)
      = [(''good'', 4), (''bad'', 0)]"
    by code_simp
  have b: "map_of (sm_rankings (br_summary ?run)) ''overall''
      = Some [(''good'', 1934 / 27), (''bad'', 0)]"
    by code_simp
  show ?thesis using a b by simp
qed

text \<open>
  C8. The summary of a run, with its rankings, depends only on the manager, the prompts,
  the model ids and the metrics: two calls with these inputs give the same summary (or
  the same exception), whatever the store, the identifier and the clock. Every ranking
  of a run is in descending order of score, and the models with equal scores stand in
  the order of their first appearance in the model ids.
\<close>

theorem rankings_deterministic:
  "map_sum id (\<lambda>(run, store'). br_summary run)
       (run_benchmark mm store1 bid1 now1 prompts model_ids metrics)
     = map_sum id (\<lambda>(run, store'). br_summary run)
         (run_benchmark mm store2 bid2 now2 prompts model_ids metrics)
   \<and> (\<forall>run store' k r.
         run_benchmark mm store1 bid1 now1 prompts model_ids metrics = Inr (run, store')
         \<and> map_of (sm_rankings (br_summary run)) k = Some r \<longrightarrow>
           sorted_wrt (\<lambda>a b. snd b \<le> snd a) r
         \<and> (\<forall>v. map fst (filter (\<lambda>e. snd e = v) r)
                  = filter (\<lambda>m. (m, v) \<in> set r)
                      (first_occurrences (filter (\<lambda>m. mm m \<noteq> None) model_ids))))"
proof -
  obtain res where res:
      "run_benchmark mm store1 bid1 now1 prompts model_ids metrics =
         (case calculate_summary res (requested_metrics metrics) of
            Inl e \<Rightarrow> Inl e
          | Inr s \<Rightarrow>
              Inr (\<lparr>br_id = bid1, br_timestamp = now1, br_prompts = prompts,
                    br_model_ids = model_ids, br_metrics = requested_metrics metrics,
                    br_results = res, br_summary = s\<rparr>,
                   dict_set bid1
                     \<lparr>br_id = bid1, br_timestamp = now1, br_prompts = prompts,
                      br_model_ids = model_ids, br_metrics = requested_metrics metrics,
                      br_results = res, br_summary = s\<rparr> store1))"
      and models: "run_models mm prompts (requested_metrics metrics) model_ids [] = Inr res"
    using run_benchmark_unfold [of mm prompts metrics model_ids store1 bid1 now1] by blast
  obtain res' where res':
      "run_benchmark mm store2 bid2 now2 prompts model_ids metrics =
         (case calculate_summary res' (requested_metrics metrics) of
            Inl e \<Rightarrow> Inl e
          | Inr s \<Rightarrow>
              Inr (\<lparr>br_id = bid2, br_timestamp = now2, br_prompts = prompts,
                    br_model_ids = model_ids, br_metrics = requested_metrics metrics,
                    br_results = res', br_summary = s\<rparr>,
                   dict_set bid2
                     \<lparr>br_id = bid2, br_timestamp = now2, br_prompts = prompts,
                      br_model_ids = model_ids, br_metrics = requested_metrics metrics,
                      br_results = res', br_summary = s\<rparr> store2))"
      and models': "run_models mm prompts (requested_metrics metrics) model_ids [] = Inr res'"
    using run_benchmark_unfold [of mm prompts metrics model_ids store2 bid2 now2] by blast
  have same: "res' = res" using models models' by simp
  have deterministic:
    "map_sum id (\<lambda>(run, store'). br_summary run)
       (run_benchmark mm store1 bid1 now1 prompts model_ids metrics)
     = map_sum id (\<lambda>(run, store'). br_summary run)
         (run_benchmark mm store2 bid2 now2 prompts model_ids metrics)"
    unfolding res res' same
    by (cases "calculate_summary res (requested_metrics metrics)") simp_all
  have stable: "sorted_wrt (\<lambda>a b. snd b \<le> snd a) r
         \<and> (\<forall>v. map fst (filter (\<lambda>e. snd e = v) r)
                  = filter (\<lambda>m. (m, v) \<in> set r)
                      (first_occurrences (filter (\<lambda>m. mm m \<noteq> None) model_ids)))"
    if run: "run_benchmark mm store1 bid1 now1 prompts model_ids metrics = Inr (run, store')"
      and r: "map_of (sm_rankings (br_summary run)) k = Some r"
    for run store' k r
  proof -
    obtain f where f: "r = sorted_descending (map (\<lambda>(mid, md). (mid, f md)) (br_results run))"
      using ranking_models(2) [OF run r] by blast
    let ?E = "map (\<lambda>(mid, md). (mid, f md)) (br_results run)"
    have keys: "map fst ?E = first_occurrences (filter (\<lambda>m. mm m \<noteq> None) model_ids)"
      using run_benchmark_Inr(1) [OF run] by (simp only: keys_of_entries)
    have dist: "distinct (map fst ?E)"
      using run_benchmark_Inr(3) [OF run] by (simp only: keys_of_entries)
    have "map fst (filter (\<lambda>e. snd e = v) r)
        = filter (\<lambda>m. (m, v) \<in> set r)
            (first_occurrences (filter (\<lambda>m. mm m \<noteq> None) model_ids))" for v
      using sorted_descending_ties [OF dist, of v] unfolding f keys .
    moreover have "sorted_wrt (\<lambda>a b. snd b \<le> snd a) r"
      unfolding f by (rule sorted_descending_sorted)
    ultimately show ?thesis by blast
  qed
  show ?thesis using deterministic stable by blast
qed

theorem rankings_deterministic_witness:
  "mock_run [''p0''] [''twin'', ''bad'', ''ghost'', ''good'', ''twin'']
     = Inr (fst (projr (mock_run [''p0''] [''twin'', ''bad'', ''ghost'', ''good'', ''twin''])),
            snd (projr (mock_run [''p0''] [''twin'', ''bad'', ''ghost'', ''good'', ''twin''])))
   \<and> map_of (sm_rankings (br_summary
         (fst (projr (mock_run [''p0''] [''twin'', ''bad'', ''ghost'', ''good'', ''twin''])))))
         ''overall''
       = Some [(''twin'', 1934 / 27), (''good'', 1934 / 27), (''bad'', 0)]
   \<and> first_occurrences (filter (\<lambda>m. mock_manager m \<noteq> None)
         [''twin'', ''bad'', ''ghost'', ''good'', ''twin''])
       = [''twin'', ''bad'', ''good'']
   \<and> map fst (filter (\<lambda>e. snd e = 1934 / 27)
         [(''twin'', 1934 / 27), (''good'', 1934 / 27), (''bad'', 0 :: real)])
       = [''twin'', ''good'']
   \<and> sorted_wrt (\<lambda>a b. snd b \<le> snd a)
         [(''twin'', 1934 / 27), (''good'', 1934 / 27), (''bad'', 0 :: real)]
   \<and> map_sum id (\<lambda>(run, store'). br_summary run)
         (run_benchmark mock_manager [] ''run-1'' 0 [''p0'']
            [''twin'', ''bad'', ''ghost'', ''good'', ''twin''] None)
       = map_sum id (\<lambda>(run, store'). br_summary run)
         (run_benchmark mock_manager [] ''run-2'' 60 [''p0'']
            [''twin'', ''bad'', ''ghost'', ''good'', ''twin''] None)"
proof -
  let ?ids = "[''twin'', ''bad'', ''ghost'', ''good'', ''twin'']"
  let ?run = "fst (projr (mock_run [''p0''] ?ids))"
  let ?r = "[(''twin'', 1934 / 27), (''good'', 1934 / 27), (''bad'', 0 :: real)]"
  note claim = rankings_deterministic
    [of mock_manager "[]" "''run-1''" 0 "[''p0'']" ?ids None "[]" "''run-2''" 60]
  have eq: "run_benchmark mock_manager [] ''run-1'' 0 [''p0''] ?ids None
      = Inr (?run, snd (projr (mock_run [''p0''] ?ids)))"
    using mock_run_returns [of "[''p0'']" ?ids] by (simp add: mock_run_def)
  have r: "map_of (sm_rankings (br_summary ?run)) ''overall'' = Some ?r"
    by code_simp
  have ids: "first_occurrences (filter (\<lambda>m. mock_manager m \<noteq> None) ?ids)
      = [''twin'', ''bad'', ''good'']"
    by (simp add: mock_manager_def)
  from claim eq r have
    "sorted_wrt (\<lambda>a b. snd b \<le> snd a) ?r
     \<and> (\<forall>v. map fst (filter (\<lambda>e. snd e = v) ?r)
             = filter (\<lambda>m. (m, v) \<in> set ?r)
                 (first_occurrences (filter (\<lambda>m. mock_manager m \<noteq> None) ?ids)))"
    by blast
  then have sorted: "sorted_wrt (\<lambda>a b. snd b \<le> snd a) ?r"
    and ties: "map fst (filter (\<lambda>e. snd e = 1934 / 27) ?r)
        = filter (\<lambda>m. (m, 1934 / 27) \<in> set ?r) [''twin'', ''bad'', ''good'']"
    unfolding ids by blast+
  have tied: "map fst (filter (\<lambda>e. snd e = 1934 / 27) ?r) = [''twin'', ''good'']"
    using ties by simp
  from claim have same:
    "map_sum id (\<lambda>(run, store'). br_summary run)
         (run_benchmark mock_manager [] ''run-1'' 0 [''p0''] ?ids None)
       = map_sum id (\<lambda>(run, store'). br_summary run)
         (run_benchmark mock_manager [] ''run-2'' 60 [''p0''] ?ids None)"
    by blast
  show ?thesis
    using mock_run_returns [of "[''p0'']" ?ids] r ids tied sorted same by blast
qed

text \<open>
  C7, as the code has it. When the requested metrics do not name \<open>overall_score\<close> (the
  default metrics do not), \<^verbatim>\<open>run_benchmark\<close> returns a run and stores it, for every
  list of prompts and of model ids. The results hold the models that have a connector, in
  the order of their first appearance; a model without a connector appears neither in
  the results nor in any ranking, and the run has the results and the summary of the run
  on the models with a connector alone. An empty list of model ids gives empty results
  and an empty summary. An empty list of prompts gives, for every model with a
  connector, a result without prompt results and with empty aggregated metrics.
\<close>

theorem run_benchmark_returns:
  assumes "''overall_score'' \<notin> set (requested_metrics metrics)"
  shows "\<exists>run store'.
      run_benchmark mm store bid now prompts model_ids metrics = Inr (run, store')
    \<and> store' = dict_set bid run store
    \<and> br_id run = bid \<and> br_prompts run = prompts \<and> br_model_ids run = model_ids
    \<and> br_metrics run = requested_metrics metrics
    \<and> map fst (br_results run) = first_occurrences (filter (\<lambda>m. mm m \<noteq> None) model_ids)
    \<and> (\<forall>m. mm m = None \<longrightarrow>
           m \<notin> fst ` set (br_results run)
         \<and> (\<forall>k r. map_of (sm_rankings (br_summary run)) k = Some r \<longrightarrow> m \<notin> fst ` set r))
    \<and> (model_ids = [] \<longrightarrow>
           br_results run = []
         \<and> br_summary run = \<lparr>sm_rankings = [], sm_best_performers = [], sm_metric_averages = []\<rparr>)
    \<and> (prompts = [] \<longrightarrow>
           (\<forall>(k, md) \<in> set (br_results run).
              mr_prompt_results md = [] \<and> mr_aggregated_metrics md = Some []))
    \<and> (\<exists>run2 store2.
           run_benchmark mm store bid now prompts (filter (\<lambda>m. mm m \<noteq> None) model_ids) metrics
             = Inr (run2, store2)
         \<and> br_results run2 = br_results run \<and> br_summary run2 = br_summary run)"
proof -
  obtain run store' where
    eq: "run_benchmark mm store bid now prompts model_ids metrics = Inr (run, store')"
    using run_benchmark_total [OF assms] by blast
  note run = run_benchmark_Inr [OF eq]
  have absent: "m \<notin> fst ` set (br_results run)" if "mm m = None" for m
  proof -
    have "m \<notin> set (filter (\<lambda>m. mm m \<noteq> None) model_ids)" using that by simp
    moreover have "set (first_occurrences xs) \<subseteq> set xs" for xs :: "string list"
      by (induction xs rule: first_occurrences.induct) auto
    ultimately have "m \<notin> set (map fst (br_results run))"
      unfolding run(1) by blast
    then show ?thesis by simp
  qed
  have unranked: "m \<notin> fst ` set r"
    if none: "mm m = None" and ranked: "map_of (sm_rankings (br_summary run)) k = Some r"
    for m k r
  proof -
    obtain f where "r = sorted_descending (map (\<lambda>(mid, md). (mid, f md)) (br_results run))"
      using ranking_models(2) [OF eq ranked] by blast
    then have "fst ` set r = fst ` set (br_results run)"
      using keys_of_entries [of f "br_results run"]
      by (metis list.set_map set_sorted_descending)
    with absent [OF none] show ?thesis by simp
  qed
  have no_models: "br_results run = []
      \<and> br_summary run = \<lparr>sm_rankings = [], sm_best_performers = [], sm_metric_averages = []\<rparr>"
    if "model_ids = []"
  proof -
    have "br_results run = []" using run(1) that by simp
    with run(4) show ?thesis by (simp add: calculate_summary_empty)
  qed
  have no_prompts: "\<forall>(k, md) \<in> set (br_results run).
      mr_prompt_results md = [] \<and> mr_aggregated_metrics md = Some []" if "prompts = []"
    using run(2) that produced_by_no_prompts by blast
  have skip: "\<exists>run2 store2.
      run_benchmark mm store bid now prompts (filter (\<lambda>m. mm m \<noteq> None) model_ids) metrics
        = Inr (run2, store2)
      \<and> br_results run2 = br_results run \<and> br_summary run2 = br_summary run"
  proof -
    obtain run2 store2 where eq2:
      "run_benchmark mm store bid now prompts (filter (\<lambda>m. mm m \<noteq> None) model_ids) metrics
         = Inr (run2, store2)"
      using run_benchmark_total [OF assms] by blast
    note run2 = run_benchmark_Inr [OF eq2]
    from run2(6) have
      "run_models mm prompts (requested_metrics metrics) model_ids [] = Inr (br_results run2)"
      unfolding run_models_skips_unresolved .
    with run(6) have results: "br_results run2 = br_results run" by simp
    have "br_summary run2 = br_summary run"
      using run2(4) run(4) by (simp add: results)
    with eq2 results show ?thesis by blast
  qed
  show ?thesis
    using eq run(1,5,7,8) absent unranked no_models no_prompts skip by blast
qed

theorem run_benchmark_returns_witness:
  "''overall_score'' \<notin> set (requested_metrics None)
   \<and> mock_manager ''ghost'' = None
   \<and> first_occurrences (filter (\<lambda>m. mock_manager m \<noteq> None) [''good'', ''ghost'']) = [''good'']
   \<and> (\<exists>run store'.
         mock_run [''p0''] [''good'', ''ghost''] = Inr (run, store')
       \<and> store' = [(''run-1'', run)]
       \<and> br_model_ids run = [''good'', ''ghost'']
       \<and> map fst (br_results run) = [''good'']
       \<and> ''ghost'' \<notin> fst ` set (br_results run))"
proof -
  have plain: "''overall_score'' \<notin> set (requested_metrics None)"
    by (simp add: requested_metrics_def)
  have ghost: "mock_manager ''ghost'' = None"
    by (simp add: mock_manager_def)
  have ids: "first_occurrences (filter (\<lambda>m. mock_manager m \<noteq> None) [''good'', ''ghost''])
      = [''good'']"
    by (simp add: mock_manager_def)
  obtain run store' where run:
      "run_benchmark mock_manager [] ''run-1'' 0 [''p0''] [''good'', ''ghost''] None
         = Inr (run, store')"
      "store' = dict_set ''run-1'' run []"
      "br_model_ids run = [''good'', ''ghost'']"
      "map fst (br_results run)
         = first_occurrences (filter (\<lambda>m. mock_manager m \<noteq> None) [''good'', ''ghost''])"
      "\<forall>m. mock_manager m = None \<longrightarrow> m \<notin> fst ` set (br_results run)
         \<and> (\<forall>k r. map_of (sm_rankings (br_summary run)) k = Some r \<longrightarrow> m \<notin> fst ` set r)"
    using run_benchmark_returns
      [OF plain, of mock_manager "[]" "''run-1''" 0 "[''p0'']" "[''good'', ''ghost'']"]
    by blast
  have returned: "mock_run [''p0''] [''good'', ''ghost''] = Inr (run, store')"
    using run(1) by (simp add: mock_run_def)
  have stored: "store' = [(''run-1'', run)]" using run(2) by simp
  have keys: "map fst (br_results run) = [''good'']" using run(4) ids by simp
  have skipped: "''ghost'' \<notin> fst ` set (br_results run)" using run(5) ghost by blast
  have "\<exists>run store'.
         mock_run [''p0''] [''good'', ''ghost''] = Inr (run, store')
       \<and> store' = [(''run-1'', run)]
       \<and> br_model_ids run = [''good'', ''ghost'']
       \<and> map fst (br_results run) = [''good'']
       \<and> ''ghost'' \<notin> fst ` set (br_results run)"
    by (rule exI [of _ run], rule exI [of _ store'])
      (simp only: returned stored [symmetric] run(3) keys skipped simp_thms)
  with plain ghost ids show ?thesis by (simp only: simp_thms)
qed

text \<open>
  The claim as the specification states it fails for an empty list of prompts: the
  results are not empty; they hold an entry for the model, which is also ranked, with
  score 0, and named best performer of every metric.
\<close>

theorem run_benchmark_returns_counterexample:
  "map (\<lambda>(mid, md). (mid, mr_prompt_results md, mr_aggregated_metrics md))
       (br_results (fst (projr (mock_run [] [''good'']))))
     = [(''good'', [], Some [])]
   \<and> br_results (fst (projr (mock_run [] [''good'']))) \<noteq> []
   \<and> br_summary (fst (projr (mock_run [] [''good''])))
     = \<lparr>sm_rankings =
          [(''overall'', [(''good'', 0)]), (''latency'', [(''good'', 0)]),
           (''cost'', [(''good'', 0)]), (''quality'', [(''good'', 0)])],
        sm_best_performers =
          [(''latency'', ''good''), (''cost'', ''good''), (''quality'', ''good'')],
        sm_metric_averages = []\<rparr>"
proof -
  have a: "map (\<lambda>(mid, md). (mid, mr_prompt_results md, mr_aggregated_metrics md))
       (br_results (fst (projr (mock_run [] [''good'']))))
     = [(''good'', [], Some [])]"
    by code_simp
  have b: "br_summary (fst (projr (mock_run [] [''good''])))
     = \<lparr>sm_rankings =
          [(''overall'', [(''good'', 0)]), (''latency'', [(''good'', 0)]),
           (''cost'', [(''good'', 0)]), (''quality'', [(''good'', 0)])],
        sm_best_performers =
          [(''latency'', ''good''), (''cost'', ''good''), (''quality'', ''good'')],
        sm_metric_averages = []\<rparr>"
    by code_simp
  from a have "br_results (fst (projr (mock_run [] [''good'']))) \<noteq> []"
    by auto
  with a b show ?thesis by blast
qed

end
